theory Spec2Isabelle
  imports Complex_Main "HOL-Library.Word" "HOL-Library.List_Lexorder" "HOL-Library.Multiset"
begin

section \<open>The wallet engine of \<^verbatim>\<open>src/wallet/database.ts\<close>\<close>

text \<open>
  The class \<^verbatim>\<open>Database\<close> keeps nine Dexie tables and the in-memory seed. It is embedded
  as a record holding the tables and the seed, its methods as functions that take the record
  and return it updated, and every \<^verbatim>\<open>throw\<close> as a value of the type \<open>error\<close>.

  Keys, hashes, signatures and nonces are byte strings. Their serialised (POD) form is a
  text encoding of the bytes, so a stored POD string is modelled by the bytes it encodes and
  \<^verbatim>\<open>X.fromPOD\<close> by the library's validity check on them.
\<close>

subsection \<open>Errors\<close>

type_synonym bytes = "8 word list"

datatype error =
    WalletLocked             \<comment> \<open>\<^verbatim>\<open>throw new Error('wallet is locked')\<close>\<close>
  | TransferMustBePending    \<comment> \<open>\<^verbatim>\<open>throw new Error('transfer must be pending')\<close>\<close>
  | TransferNotValid         \<comment> \<open>\<^verbatim>\<open>throw new Error('just created transfer is not valid')\<close>\<close>
  | MustExist                \<comment> \<open>\<^verbatim>\<open>util.mustExist\<close> on \<^verbatim>\<open>undefined\<close>\<close>
  | MustEqual                \<comment> \<open>\<^verbatim>\<open>util.mustEqual\<close> on two different values\<close>
  | NotError                 \<comment> \<open>\<^verbatim>\<open>util.notError\<close> on an \<^verbatim>\<open>Error\<close>\<close>
  | ConstraintError          \<comment> \<open>Dexie: \<^verbatim>\<open>add\<close> on a present key, or a unique index violated\<close>
  | RequestError string int  \<comment> \<open>\<^verbatim>\<open>new RequestError(message, statusCode)\<close>\<close>

subsection \<open>Documents (\<^verbatim>\<open>./docs\<close>) and library objects\<close>

text \<open>
  Field names carry a prefix per record, since the source reuses \<^verbatim>\<open>hash\<close>,
  \<^verbatim>\<open>claimant\<close>, \<^verbatim>\<open>amount\<close> and \<^verbatim>\<open>index\<close> across documents.
\<close>

record Coin =
  coin_owner :: bytes
  coin_magnitude :: nat
  coin_existenceProof :: bytes

record CoinDoc =
  c_hash :: bytes
  c_claimHash :: bytes
  c_blindingNonce :: bytes
  c_owner :: bytes
  c_magnitude :: nat
  c_existenceProof :: bytes

record Bounty =
  bounty_amount :: int
  bounty_claimant :: bytes
  bounty_nonce :: bytes

record BountyDoc =
  b_hash :: bytes
  b_amount :: int
  b_claimant :: bytes
  b_nonce :: bytes

record Hookin =
  hookin_txid :: bytes
  hookin_vout :: nat
  hookin_amount :: int
  hookin_creditTo :: bytes

record HookinDoc =
  h_hash :: bytes
  h_bitcoinAddress :: string
  h_created :: nat
  h_txid :: bytes
  h_vout :: nat
  h_amount :: int
  h_creditTo :: bytes

record Hookout =
  hookout_amount :: int
  hookout_bitcoinAddress :: string
  hookout_immediate :: bool
  hookout_nonce :: bytes

record HookoutDoc =
  o_hash :: bytes
  o_amount :: int
  o_bitcoinAddress :: string
  o_immediate :: bool
  o_nonce :: bytes

record BitcoinAddress =
  ba_address :: string
  ba_claimant :: bytes
  ba_index :: int

record DirectAddress =
  da_claimant :: bytes
  da_index :: int
  da_isInternal :: bool

record Config =
  cfg_bitcoinAddressGenerator :: bytes
  cfg_directAddressGenerator :: bytes
  cfg_internalAddressGenerator :: bytes
  cfg_mnemonic :: string
  cfg_baseAPI :: string
  cfg_gapLimit :: int

record CoinClaim =
  cc_blindingNonce :: bytes
  cc_blindedOwner :: bytes
  cc_magnitude :: nat

record ClaimRequest =
  cr_claim :: bytes
  cr_coins :: "CoinClaim list"
  cr_authorization :: bytes

text \<open>An acknowledged claim response; its POD is the row of the table \<^verbatim>\<open>claims\<close>.\<close>

record Claim =
  cl_acknowledgement :: bytes
  cl_claimRequest :: ClaimRequest
  cl_blindedReceipts :: "bytes list"

datatype TransferStatus = PENDING | CONFLICTED | ACKNOWLEDGED bytes

fun kind :: "TransferStatus \<Rightarrow> string" where
  "kind PENDING = ''PENDING''"
| "kind CONFLICTED = ''CONFLICTED''"
| "kind (ACKNOWLEDGED a) = ''ACKNOWLEDGED''"

record Transfer =
  t_hash :: bytes
  t_status :: TransferStatus
  t_created :: nat
  t_coinHashes :: "bytes list"
  t_inputs :: "Coin list"
  t_bountyHashes :: "bytes list"
  t_hookoutHash :: "bytes option"
  t_authorization :: bytes

text \<open>\<^verbatim>\<open>hi.FullTransfer\<close>: the inputs, the bounties, the optional hookout, the authorization.\<close>

record FullTransfer =
  ft_inputs :: "Coin list"
  ft_bounties :: "Bounty list"
  ft_hookout :: "Hookout option"
  ft_authorization :: bytes

text \<open>What \<^verbatim>\<open>lookupTransfer\<close> answers: an acknowledged (pruned) transfer.\<close>

record AcknowledgedTransfer =
  at_acknowledgement :: bytes
  at_inputs :: "Coin list"
  at_bountyHashes :: "bytes list"
  at_hookoutHash :: "bytes option"
  at_authorization :: bytes

record BitcoinReceiveInfo =
  r_txid :: bytes
  r_vout :: nat
  r_amount :: int

datatype claimable = ClaimBounty Bounty | ClaimHookin Hookin

subsection \<open>The primitive library \<^verbatim>\<open>hookedin-lib\<close>\<close>

text \<open>
  The library is not part of the repository. Its primitives are parameters of the model:
  every function below takes the record \<open>L\<close> of them, and every theorem holds for any
  library.
\<close>

record lib =
  fromMessage :: "string \<Rightarrow> bytes list \<Rightarrow> bytes"      \<comment> \<open>\<^verbatim>\<open>hi.Hash.fromMessage(label, ...buffers)\<close>\<close>
  privateKeyFromBytes :: "bytes \<Rightarrow> bytes option"        \<comment> \<open>\<^verbatim>\<open>hi.PrivateKey.fromBytes\<close>, \<open>None\<close> an \<^verbatim>\<open>Error\<close>\<close>
  derive :: "bytes \<Rightarrow> bytes \<Rightarrow> bytes"                   \<comment> \<open>\<^verbatim>\<open>privateKey.derive(n)\<close>\<close>
  toPublicKey :: "bytes \<Rightarrow> bytes"
  tweak :: "bytes \<Rightarrow> bytes \<Rightarrow> bytes"                    \<comment> \<open>\<^verbatim>\<open>publicKey.tweak(publicKey)\<close>\<close>
  toBitcoinAddress :: "bytes \<Rightarrow> string"
  fromUint8 :: "int \<Rightarrow> bytes"                           \<comment> \<open>\<^verbatim>\<open>hi.Buffutils.fromUint8\<close>\<close>
  fromVarInt :: "int \<Rightarrow> bytes"                          \<comment> \<open>\<^verbatim>\<open>hi.Buffutils.fromVarInt\<close>\<close>
  amountToMagnitudes :: "int \<Rightarrow> nat list"
  coinHash :: "Coin \<Rightarrow> bytes"
  bountyHash :: "Bounty \<Rightarrow> bytes"
  hookinHash :: "Hookin \<Rightarrow> bytes"
  hookoutHash :: "Hookout \<Rightarrow> bytes"
  hashOf :: "bytes list \<Rightarrow> bytes list \<Rightarrow> bytes option \<Rightarrow> bytes"  \<comment> \<open>\<^verbatim>\<open>hi.Transfer.hashOf\<close>\<close>
  computeMu :: "bytes \<Rightarrow> bytes list \<Rightarrow> bytes"          \<comment> \<open>\<^verbatim>\<open>hi.Signature.computeMu\<close>\<close>
  blindMessage :: "bytes \<Rightarrow> bytes \<Rightarrow> bytes \<Rightarrow> bytes \<Rightarrow> bytes \<times> bytes"
  unblind :: "bytes \<Rightarrow> bytes \<Rightarrow> bytes"
  verify :: "bytes \<Rightarrow> bytes \<Rightarrow> bytes \<Rightarrow> bool"            \<comment> \<open>\<^verbatim>\<open>proof.verify(message, signer)\<close>\<close>
  validPublicKey :: "bytes \<Rightarrow> bool"                     \<comment> \<open>\<^verbatim>\<open>hi.PublicKey.fromPOD\<close> succeeds\<close>
  validHash :: "bytes \<Rightarrow> bool"
  validSignature :: "bytes \<Rightarrow> bool"
  validCoin :: "Coin \<Rightarrow> bool"
  validBounty :: "Bounty \<Rightarrow> bool"
  validHookin :: "Hookin \<Rightarrow> bool"
  validHookout :: "Hookout \<Rightarrow> bool"
  isValid :: "FullTransfer \<Rightarrow> bool"                   \<comment> \<open>\<^verbatim>\<open>fullTransfer.isValid()\<close>\<close>
  fundingPublicKey :: bytes                            \<comment> \<open>\<^verbatim>\<open>hi.Params\<close>\<close>
  blindingCoinPublicKeys :: "nat \<Rightarrow> bytes"
  transactionConsolidationFee :: int
  basicTransferFee :: int
  templateTransactionWeight :: int

subsection \<open>The store\<close>

text \<open>
  A table is the list of its rows; \<open>key\<close> reads the primary key of a row. \<^verbatim>\<open>put\<close>
  replaces the row of the same key, \<^verbatim>\<open>add\<close> fails when the key is present. The order
  in which a scan without \<^verbatim>\<open>orderBy\<close> returns the rows is not modelled.
\<close>

definition tget :: "('r \<Rightarrow> 'k) \<Rightarrow> 'k \<Rightarrow> 'r list \<Rightarrow> 'r option" where
  "tget key k rows = find (\<lambda>r. key r = k) rows"

definition tput :: "('r \<Rightarrow> 'k) \<Rightarrow> 'r \<Rightarrow> 'r list \<Rightarrow> 'r list" where
  "tput key r rows = filter (\<lambda>x. key x \<noteq> key r) rows @ [r]"

definition tadd :: "('r \<Rightarrow> 'k) \<Rightarrow> 'r \<Rightarrow> 'r list \<Rightarrow> error + 'r list" where
  "tadd key r rows = (if tget key (key r) rows = None then Inr (rows @ [r]) else Inl ConstraintError)"

text \<open>
  \<^verbatim>\<open>put\<close> on a table with a unique secondary index (\<^verbatim>\<open>'address, &index'\<close>,
  \<^verbatim>\<open>'claimant, &index'\<close>): another row holding the same index value is a constraint error.
\<close>

definition tputUnique :: "('r \<Rightarrow> 'k) \<Rightarrow> ('r \<Rightarrow> 'i) \<Rightarrow> 'r \<Rightarrow> 'r list \<Rightarrow> error + 'r list" where
  "tputUnique key idx r rows =
     (if \<exists>x \<in> set rows. key x \<noteq> key r \<and> idx x = idx r then Inl ConstraintError
      else Inr (tput key r rows))"

text \<open>
  A network round trip of the engine. The record \<open>Database\<close> logs them in \<open>requests\<close>, and
  counts the calls of \<^verbatim>\<open>hi.random\<close> in \<open>randomCalls\<close>; both are the model's trace of the
  environment, all other fields are the fields of the class.
\<close>

datatype request =
    FetchBitcoinReceives string
  | MakeClaim bytes claimable "nat list"
  | SubmitTransfer FullTransfer
  | LookupCoin bytes
  | LookupTransfer bytes

record Database =
  bounties :: "BountyDoc list"
  config :: "Config option"
  claims :: "Claim list"
  coins :: "CoinDoc list"
  hookins :: "HookinDoc list"
  bitcoinAddresses :: "BitcoinAddress list"
  directAddresses :: "DirectAddress list"
  hookouts :: "HookoutDoc list"
  transfers :: "Transfer list"
  seed :: "bytes option"
  requests :: "request list"
  randomCalls :: nat

subsection \<open>Key derivation\<close>

definition seedToBitcoinAddressGenerator :: "lib \<Rightarrow> bytes \<Rightarrow> error + bytes" where
  "seedToBitcoinAddressGenerator L s =
     (case privateKeyFromBytes L (fromMessage L ''bitcoinAddressGenerator'' [s]) of
        None \<Rightarrow> Inl NotError | Some k \<Rightarrow> Inr k)"

definition seedToDirectAddressGenerator :: "lib \<Rightarrow> bytes \<Rightarrow> error + bytes" where
  "seedToDirectAddressGenerator L s =
     (case privateKeyFromBytes L (fromMessage L ''directAddressGenerator'' [s]) of
        None \<Rightarrow> Inl NotError | Some k \<Rightarrow> Inr k)"

definition seedToInternalAddressGenerator :: "lib \<Rightarrow> bytes \<Rightarrow> error + bytes" where
  "seedToInternalAddressGenerator L s =
     (case privateKeyFromBytes L (fromMessage L ''internalAddressGenerator'' [s]) of
        None \<Rightarrow> Inl NotError | Some k \<Rightarrow> Inr k)"

definition deriveBitcoinAddress :: "lib \<Rightarrow> Database \<Rightarrow> bytes \<Rightarrow> error + (bytes \<times> string)" where
  "deriveBitcoinAddress L db n =
     (case seed db of
        None \<Rightarrow> Inl WalletLocked
      | Some s \<Rightarrow>
          (case seedToBitcoinAddressGenerator L s of
             Inl e \<Rightarrow> Inl e
           | Inr g \<Rightarrow>
               (let claimant = derive L g n;
                    claimantPub = toPublicKey L claimant;
                    tweakBytes = fromMessage L ''tweak'' [claimantPub]
                in case privateKeyFromBytes L tweakBytes of
                     None \<Rightarrow> Inl NotError
                   | Some tw \<Rightarrow>
                       (let tweakPubkey = toPublicKey L tw;
                            pubkey = tweak L (fundingPublicKey L) tweakPubkey
                        in Inr (claimant, toBitcoinAddress L pubkey)))))"

definition deriveBitcoinAddressIndex :: "lib \<Rightarrow> Database \<Rightarrow> int \<Rightarrow> error + (bytes \<times> string)" where
  "deriveBitcoinAddressIndex L db i = deriveBitcoinAddress L db (fromUint8 L i)"

definition deriveClaimant :: "lib \<Rightarrow> Database \<Rightarrow> bytes \<Rightarrow> bool \<Rightarrow> error + bytes" where
  "deriveClaimant L db n isInternal =
     (case seed db of
        None \<Rightarrow> Inl WalletLocked
      | Some s \<Rightarrow>
          (case (if isInternal then seedToDirectAddressGenerator L s
                 else seedToInternalAddressGenerator L s) of
             Inl e \<Rightarrow> Inl e
           | Inr addressGenerator \<Rightarrow> Inr (derive L addressGenerator n)))"

definition deriveClaimantIndex :: "lib \<Rightarrow> Database \<Rightarrow> int \<Rightarrow> bool \<Rightarrow> error + bytes" where
  "deriveClaimantIndex L db i isInternal = deriveClaimant L db (fromVarInt L i) isInternal"

definition deriveOwner :: "lib \<Rightarrow> Database \<Rightarrow> bytes \<Rightarrow> bytes \<Rightarrow> error + bytes" where
  "deriveOwner L db claimHash blindingNonce =
     (case seed db of
        None \<Rightarrow> Inl WalletLocked
      | Some s \<Rightarrow>
          (case privateKeyFromBytes L
                  (fromMessage L ''HIChain.deriveOwner'' [s, claimHash, blindingNonce]) of
             None \<Rightarrow> Inl NotError
           | Some k \<Rightarrow> Inr k))"

definition deriveBlindingSecret :: "lib \<Rightarrow> Database \<Rightarrow> bytes \<Rightarrow> bytes \<Rightarrow> error + bytes" where
  "deriveBlindingSecret L db claimHash blindingNonce =
     (case seed db of
        None \<Rightarrow> Inl WalletLocked
      | Some s \<Rightarrow> Inr (fromMessage L ''HIChain.deriveBlindingSecret'' [s, claimHash, blindingNonce]))"

subsection \<open>Unspent coins\<close>

text \<open>
  \<^verbatim>\<open>listUnspent\<close>: the transfers whose \<^verbatim>\<open>status.kind\<close> is not
  \<^verbatim>\<open>'CONFLICTED'\<close>, the set of their coin hashes, and the coins outside it.
\<close>

definition spentTransfers :: "Database \<Rightarrow> Transfer list" where
  "spentTransfers db = filter (\<lambda>t. kind (t_status t) \<noteq> ''CONFLICTED'') (transfers db)"

definition spentCoinHashes :: "Database \<Rightarrow> bytes set" where
  "spentCoinHashes db = set (concat (map t_coinHashes (spentTransfers db)))"

definition listUnspent :: "Database \<Rightarrow> CoinDoc list" where
  "listUnspent db = filter (\<lambda>coin. c_hash coin \<notin> spentCoinHashes db) (coins db)"

definition getBalance :: "Database \<Rightarrow> int" where
  "getBalance db = sum_list (map (\<lambda>coin. 2 ^ c_magnitude coin) (listUnspent db))"

subsection \<open>The environment\<close>

text \<open>
  The request modules (\<^verbatim>\<open>./requests/*\<close>), \<^verbatim>\<open>hi.random\<close>, the clock and the coin
  selector \<^verbatim>\<open>coinselection.findAtLeast\<close> are parameters, typed as \<^verbatim>\<open>database.ts\<close>
  uses them: \<^verbatim>\<open>makeClaim\<close> answers the acknowledged claim response or throws,
  \<^verbatim>\<open>submitTransfer\<close> answers a \<^verbatim>\<open>RequestError\<close> (message and status code) or the
  acknowledgement, the two lookups answer \<^verbatim>\<open>undefined\<close> or what they found.
\<close>

record env =
  fetchBitcoinReceives :: "string \<Rightarrow> BitcoinReceiveInfo list"
  makeClaim :: "(bytes \<Rightarrow> bytes \<Rightarrow> error + bytes) \<Rightarrow> (bytes \<Rightarrow> bytes \<Rightarrow> error + bytes)
                  \<Rightarrow> bytes \<Rightarrow> claimable \<Rightarrow> nat list \<Rightarrow> error + Claim"
  submitTransfer :: "FullTransfer \<Rightarrow> (string \<times> int) + bytes"
  lookupCoin :: "bytes \<Rightarrow> bytes option"
  lookupTransfer :: "bytes \<Rightarrow> AcknowledgedTransfer option"
  random :: "nat \<Rightarrow> nat \<Rightarrow> bytes"         \<comment> \<open>the value of the k-th call, \<^verbatim>\<open>hi.random(n)\<close>\<close>
  now :: nat                              \<comment> \<open>\<^verbatim>\<open>new Date()\<close>\<close>
  coinselection_findAtLeast :: "CoinDoc list \<Rightarrow> int \<Rightarrow> (CoinDoc list \<times> int) option"

type_synonym 'a result = "(error + 'a) \<times> Database"

definition logRequest :: "request \<Rightarrow> Database \<Rightarrow> Database" where
  "logRequest r db = db\<lparr>requests := requests db @ [r]\<rparr>"

subsection \<open>The claim orchestrator\<close>

definition claimKey :: "Claim \<Rightarrow> bytes" where
  \<comment> \<open>the key path \<^verbatim>\<open>'claimRequest.claim'\<close> of the table \<^verbatim>\<open>claims\<close>\<close>
  "claimKey c = cr_claim (cl_claimRequest c)"

text \<open>The body of the loop of \<^verbatim>\<open>processClaimResponse\<close>, over the table \<^verbatim>\<open>coins\<close>.\<close>

fun claimCoins :: "lib \<Rightarrow> Database \<Rightarrow> bytes \<Rightarrow> (CoinClaim \<times> bytes) list \<Rightarrow> CoinDoc list
                    \<Rightarrow> error + CoinDoc list" where
  "claimCoins L db claimHash [] tbl = Inr tbl"
| "claimCoins L db claimHash ((coinClaim, blindedExistenceProof) # rest) tbl =
     (case deriveBlindingSecret L db claimHash (cc_blindingNonce coinClaim) of
        Inl e \<Rightarrow> Inl e
      | Inr blindingSecret \<Rightarrow>
          (case deriveOwner L db claimHash (cc_blindingNonce coinClaim) of
             Inl e \<Rightarrow> Inl e
           | Inr ownerKey \<Rightarrow>
               (let newOwner = toPublicKey L ownerKey;
                    signer = blindingCoinPublicKeys L (cc_magnitude coinClaim);
                    (unblinder, blindedOwner) =
                       blindMessage L blindingSecret (cc_blindingNonce coinClaim) signer newOwner
                in if blindedOwner \<noteq> cc_blindedOwner coinClaim then Inl MustEqual
                   else
                     (let existenceProof = unblind L unblinder blindedExistenceProof
                      in if \<not> verify L existenceProof newOwner signer then Inl MustEqual
                         else
                           (let coin = \<lparr>coin_owner = newOwner,
                                        coin_magnitude = cc_magnitude coinClaim,
                                        coin_existenceProof = existenceProof\<rparr>
                            in claimCoins L db claimHash rest
                                 (tput c_hash
                                    \<lparr>c_hash = coinHash L coin,
                                     c_claimHash = claimHash,
                                     c_blindingNonce = cc_blindingNonce coinClaim,
                                     c_owner = newOwner,
                                     c_magnitude = cc_magnitude coinClaim,
                                     c_existenceProof = existenceProof\<rparr> tbl))))))"

text \<open>
  \<^verbatim>\<open>processClaimResponse\<close> runs one transaction over \<^verbatim>\<open>coins\<close> and \<^verbatim>\<open>claims\<close>
  and does not await it: a failure inside rolls the transaction back and does not reach the
  caller, so the function returns the database, changed or not. The transaction is taken at
  the point of the call.
\<close>

definition processClaimResponse :: "lib \<Rightarrow> Claim \<Rightarrow> Database \<Rightarrow> Database" where
  "processClaimResponse L acknowledgedClaimResponse db =
     (let claimRequest = cl_claimRequest acknowledgedClaimResponse;
          blindedReceipts = cl_blindedReceipts acknowledgedClaimResponse;
          claimHash = cr_claim claimRequest
      in if length (cr_coins claimRequest) \<noteq> length blindedReceipts then db
         else
           (case claimCoins L db claimHash (zip (cr_coins claimRequest) blindedReceipts) (coins db) of
              Inl e \<Rightarrow> db
            | Inr tbl \<Rightarrow>
                db\<lparr>coins := tbl, claims := tput claimKey acknowledgedClaimResponse (claims db)\<rparr>))"

definition bountyFromPOD :: "BountyDoc \<Rightarrow> Bounty" where
  "bountyFromPOD d = \<lparr>bounty_amount = b_amount d, bounty_claimant = b_claimant d, bounty_nonce = b_nonce d\<rparr>"

definition hookinFromPOD :: "HookinDoc \<Rightarrow> Hookin" where
  "hookinFromPOD d = \<lparr>hookin_txid = h_txid d, hookin_vout = h_vout d, hookin_amount = h_amount d,
                       hookin_creditTo = h_creditTo d\<rparr>"

definition claimBountyWithAddress :: "lib \<Rightarrow> env \<Rightarrow> BountyDoc \<Rightarrow> DirectAddress \<Rightarrow> Database \<Rightarrow> unit result" where
  "claimBountyWithAddress L E bountyDoc address db =
     (case tget claimKey (b_hash bountyDoc) (claims db) of
        Some claim \<Rightarrow> (Inr (), db)
      | None \<Rightarrow>
          (case deriveClaimantIndex L db (da_index address) (da_isInternal address) of
             Inl e \<Rightarrow> (Inl e, db)
           | Inr claimant \<Rightarrow>
               (let bounty = bountyFromPOD bountyDoc
                in if \<not> validBounty L bounty then (Inl NotError, db)
                   else
                     (let magnitudes = amountToMagnitudes L (bounty_amount bounty);
                          db1 = logRequest (MakeClaim claimant (ClaimBounty bounty) magnitudes) db
                      in case makeClaim E (deriveBlindingSecret L db) (deriveOwner L db) claimant
                                (ClaimBounty bounty) magnitudes of
                           Inl e \<Rightarrow> (Inl e, db1)
                         | Inr claimResponse \<Rightarrow> (Inr (), processClaimResponse L claimResponse db1)))))"

definition claimBounty :: "lib \<Rightarrow> env \<Rightarrow> BountyDoc \<Rightarrow> Database \<Rightarrow> unit result" where
  "claimBounty L E bountyDoc db =
     (case tget da_claimant (b_claimant bountyDoc) (directAddresses db) of
        None \<Rightarrow> (Inl MustExist, db)
      | Some address \<Rightarrow> claimBountyWithAddress L E bountyDoc address db)"

definition claimHookin :: "lib \<Rightarrow> env \<Rightarrow> HookinDoc \<Rightarrow> Database \<Rightarrow> unit result" where
  "claimHookin L E hookinDoc db =
     (case tget claimKey (h_hash hookinDoc) (claims db) of
        Some claim \<Rightarrow> (Inr (), db)
      | None \<Rightarrow>
          (case tget ba_address (h_bitcoinAddress hookinDoc) (bitcoinAddresses db) of
             None \<Rightarrow> (Inl MustExist, db)
           | Some bitcoinAddressDoc \<Rightarrow>
               (case deriveBitcoinAddressIndex L db (ba_index bitcoinAddressDoc) of
                  Inl e \<Rightarrow> (Inl e, db)
                | Inr (claimant, bitcoinAddress) \<Rightarrow>
                    (let hookin = hookinFromPOD hookinDoc
                     in if \<not> validHookin L hookin then (Inl NotError, db)
                        else
                          (let magnitudes = amountToMagnitudes L
                                 (hookin_amount hookin - transactionConsolidationFee L);
                               db1 = logRequest (MakeClaim claimant (ClaimHookin hookin) magnitudes) db
                           in case makeClaim E (deriveBlindingSecret L db) (deriveOwner L db) claimant
                                     (ClaimHookin hookin) magnitudes of
                                Inl e \<Rightarrow> (Inl e, db1)
                              | Inr claimResponse \<Rightarrow>
                                  (Inr (), processClaimResponse L claimResponse db1))))))"

subsection \<open>Address discovery\<close>











subsection \<open>Transfers\<close>

text \<open>
  Modelled from the spec: the methods of \<^verbatim>\<open>hi.Transfer\<close> and \<^verbatim>\<open>hi.FullTransfer\<close>
  that only rearrange data (\<^verbatim>\<open>sort\<close>, \<^verbatim>\<open>hash\<close>, \<^verbatim>\<open>prune\<close>), which live in
  \<^verbatim>\<open>hookedin-lib\<close>. The spec: inputs and outputs are canonically ordered "by a fixed
  deterministic comparison (hash-based)", and the commitment hash is computed "over
  (ordered input hashes, ordered output hashes, optional hookout hash)". The order on hashes
  is the lexicographic order of their bytes; the digest itself is the parameter \<open>hashOf\<close>.
\<close>

definition Transfer_sort :: "('a \<Rightarrow> bytes) \<Rightarrow> 'a list \<Rightarrow> 'a list" where
  "Transfer_sort h xs = sort_key h xs"

definition FullTransfer_hash :: "lib \<Rightarrow> FullTransfer \<Rightarrow> bytes" where
  "FullTransfer_hash L t =
     hashOf L (map (coinHash L) (ft_inputs t)) (map (bountyHash L) (ft_bounties t))
       (map_option (hookoutHash L) (ft_hookout t))"

definition AcknowledgedTransfer_hash :: "lib \<Rightarrow> AcknowledgedTransfer \<Rightarrow> bytes" where
  "AcknowledgedTransfer_hash L t =
     hashOf L (map (coinHash L) (at_inputs t)) (at_bountyHashes t) (at_hookoutHash t)"

definition coinFromPOD :: "CoinDoc \<Rightarrow> Coin" where
  "coinFromPOD d = \<lparr>coin_owner = c_owner d, coin_magnitude = c_magnitude d,
                     coin_existenceProof = c_existenceProof d\<rparr>"

definition hookoutFromPOD :: "HookoutDoc \<Rightarrow> Hookout" where
  "hookoutFromPOD d = \<lparr>hookout_amount = o_amount d, hookout_bitcoinAddress = o_bitcoinAddress d,
                        hookout_immediate = o_immediate d, hookout_nonce = o_nonce d\<rparr>"

definition discardTransfer :: "Transfer \<Rightarrow> Database \<Rightarrow> unit result" where
  "discardTransfer transferDoc db =
     (if kind (t_status transferDoc) \<noteq> ''PENDING'' then (Inl TransferMustBePending, db)
      else (Inr (), db\<lparr>transfers := tput t_hash (transferDoc\<lparr>t_status := CONFLICTED\<rparr>) (transfers db)\<rparr>))"

text \<open>\<^verbatim>\<open>util.mustExist(await this.bounties.get(bountyHash))\<close> for every bounty hash.\<close>

fun getBounties :: "Database \<Rightarrow> bytes list \<Rightarrow> error + BountyDoc list" where
  "getBounties db [] = Inr []"
| "getBounties db (bh # rest) =
     (case tget b_hash bh (bounties db) of
        None \<Rightarrow> Inl MustExist
      | Some b \<Rightarrow> (case getBounties db rest of Inl e \<Rightarrow> Inl e | Inr bs \<Rightarrow> Inr (b # bs)))"

definition getHookout :: "lib \<Rightarrow> Database \<Rightarrow> bytes option \<Rightarrow> error + Hookout option" where
  "getHookout L db hookoutHashOpt =
     (case hookoutHashOpt of
        None \<Rightarrow> Inr None
      | Some hh \<Rightarrow>
          (case tget o_hash hh (hookouts db) of
             None \<Rightarrow> Inl MustExist
           | Some h \<Rightarrow> if validHookout L (hookoutFromPOD h) then Inr (Some (hookoutFromPOD h))
                       else Inl NotError))"

definition conflictTransferDoc :: "lib \<Rightarrow> env \<Rightarrow> AcknowledgedTransfer \<Rightarrow> Transfer" where
  "conflictTransferDoc L E conflictTransfer =
     \<lparr>t_hash = AcknowledgedTransfer_hash L conflictTransfer,
      t_status = ACKNOWLEDGED (at_acknowledgement conflictTransfer),
      t_created = now E,
      t_coinHashes = map (coinHash L) (at_inputs conflictTransfer),
      t_inputs = at_inputs conflictTransfer,
      t_bountyHashes = at_bountyHashes conflictTransfer,
      t_hookoutHash = at_hookoutHash conflictTransfer,
      t_authorization = at_authorization conflictTransfer\<rparr>"

text \<open>The loop over \<^verbatim>\<open>transferDoc.inputs\<close> after \<^verbatim>\<open>INPUT_SPENT\<close>.\<close>

fun reconcile :: "lib \<Rightarrow> env \<Rightarrow> Coin list \<Rightarrow> Database \<Rightarrow> Database" where
  "reconcile L E [] db = db"
| "reconcile L E (coin # rest) db =
     (case lookupCoin E (coin_owner coin) of
        None \<Rightarrow> reconcile L E rest (logRequest (LookupCoin (coin_owner coin)) db)
      | Some transferHash \<Rightarrow>
          (let db2 = logRequest (LookupTransfer transferHash)
                       (logRequest (LookupCoin (coin_owner coin)) db)
           in case lookupTransfer E transferHash of
                None \<Rightarrow> reconcile L E rest db2
              | Some conflictTransfer \<Rightarrow>
                  reconcile L E rest
                    (db2\<lparr>transfers := tput t_hash (conflictTransferDoc L E conflictTransfer)
                                         (transfers db2)\<rparr>)))"

text \<open>
  The detached task of \<^verbatim>\<open>finalizeTransfer\<close> that claims the bounties of an acknowledged
  transfer. Its error is caught and logged, so it returns the database only; it stops at the
  first failing claim, the loop being inside the task.
\<close>

fun claimOwnBounties :: "lib \<Rightarrow> env \<Rightarrow> BountyDoc list \<Rightarrow> Database \<Rightarrow> Database" where
  "claimOwnBounties L E [] db = db"
| "claimOwnBounties L E (bounty # rest) db =
     (case tget da_claimant (b_claimant bounty) (directAddresses db) of
        None \<Rightarrow> claimOwnBounties L E rest db
      | Some address \<Rightarrow>
          (case claimBountyWithAddress L E bounty address db of
             (Inl e, db') \<Rightarrow> db'
           | (Inr u, db') \<Rightarrow> claimOwnBounties L E rest db'))"

text \<open>
  The reads and checks of \<^verbatim>\<open>finalizeTransfer\<close> before the submission: the full
  transfer it assembles, and the bounty documents of its outputs.
\<close>

definition assembleFullTransfer :: "lib \<Rightarrow> Transfer \<Rightarrow> Database \<Rightarrow> error + (FullTransfer \<times> BountyDoc list)" where
  "assembleFullTransfer L transferDoc db =
     (if \<not> list_all (validCoin L) (t_inputs transferDoc) then Inl NotError
      else
        (case getBounties db (t_bountyHashes transferDoc) of
           Inl e \<Rightarrow> Inl e
         | Inr bountyDocs \<Rightarrow>
             (case getHookout L db (t_hookoutHash transferDoc) of
                Inl e \<Rightarrow> Inl e
              | Inr hookout \<Rightarrow>
                  if \<not> validSignature L (t_authorization transferDoc) then Inl NotError
                  else if \<not> list_all (validBounty L) (map bountyFromPOD bountyDocs) then Inl NotError
                  else Inr (\<lparr>ft_inputs = t_inputs transferDoc,
                             ft_bounties = map bountyFromPOD bountyDocs,
                             ft_hookout = hookout,
                             ft_authorization = t_authorization transferDoc\<rparr>, bountyDocs))))"

text \<open>
  \<^verbatim>\<open>finalizeTransfer\<close>. The detached task is run after the status is written, which is
  one of the interleavings the source allows.
\<close>

definition finalizeTransfer :: "lib \<Rightarrow> env \<Rightarrow> Transfer \<Rightarrow> Database \<Rightarrow> unit result" where
  "finalizeTransfer L E transferDoc db =
     (if kind (t_status transferDoc) \<noteq> ''PENDING'' then (Inl TransferMustBePending, db)
      else
        (case assembleFullTransfer L transferDoc db of
           Inl e \<Rightarrow> (Inl e, db)
         | Inr (fullTransfer, bountyDocs) \<Rightarrow>
             (let db1 = logRequest (SubmitTransfer fullTransfer) db
              in case submitTransfer E fullTransfer of
                   Inl (message, statusCode) \<Rightarrow>
                     (if message = ''INPUT_SPENT'' then
                        (let db2 = reconcile L E (t_inputs transferDoc) db1
                         in (Inl (RequestError message statusCode),
                             db2\<lparr>transfers := tput t_hash (transferDoc\<lparr>t_status := CONFLICTED\<rparr>)
                                                  (transfers db2)\<rparr>))
                      else (Inl (RequestError message statusCode), db1))
                 | Inr acknowledgement \<Rightarrow>
                     (Inr (),
                      claimOwnBounties L E bountyDocs
                        (db1\<lparr>transfers := tput t_hash
                               (transferDoc\<lparr>t_status := ACKNOWLEDGED acknowledgement\<rparr>)
                               (transfers db1)\<rparr>)))))"

subsection \<open>Building a transfer\<close>

definition addDirectAddress :: "lib \<Rightarrow> int \<Rightarrow> bool \<Rightarrow> Database \<Rightarrow> (bytes \<times> DirectAddress) result" where
  "addDirectAddress L index isInternal db =
     (case deriveClaimantIndex L db index isInternal of
        Inl e \<Rightarrow> (Inl e, db)
      | Inr claimant \<Rightarrow>
          (let claimantPub = toPublicKey L claimant;
               directAddressDoc = \<lparr>da_claimant = claimantPub, da_index = index, da_isInternal = isInternal\<rparr>
           in case tputUnique da_claimant da_index directAddressDoc (directAddresses db) of
                Inl e \<Rightarrow> (Inl e, db)
              | Inr tbl \<Rightarrow> (Inr (claimantPub, directAddressDoc), db\<lparr>directAddresses := tbl\<rparr>)))"

definition bountyDocOf :: "lib \<Rightarrow> Bounty \<Rightarrow> BountyDoc" where
  \<comment> \<open>\<^verbatim>\<open>{ hash: bounty.hash().toPOD(), ...bounty.toPOD() }\<close>\<close>
  "bountyDocOf L b = \<lparr>b_hash = bountyHash L b, b_amount = bounty_amount b,
                       b_claimant = bounty_claimant b, b_nonce = bounty_nonce b\<rparr>"

definition newInternalBounty :: "lib \<Rightarrow> env \<Rightarrow> int \<Rightarrow> Database \<Rightarrow> (Bounty \<times> BountyDoc) result" where
  "newInternalBounty L E amount db =
     (let byIndex = sort_key da_index (directAddresses db);
          index = (if byIndex = [] then 0 else da_index (last byIndex) + 1)
      in case addDirectAddress L index True db of
           (Inl e, db') \<Rightarrow> (Inl e, db')
         | (Inr (claimant, address), db') \<Rightarrow>
             (let nonce = random E (randomCalls db') 32;
                  db1 = db'\<lparr>randomCalls := Suc (randomCalls db')\<rparr>;
                  bounty = \<lparr>bounty_amount = amount, bounty_claimant = claimant, bounty_nonce = nonce\<rparr>;
                  doc = bountyDocOf L bounty
              in case tadd b_hash doc (bounties db1) of
                   Inl e \<Rightarrow> (Inl e, db1)
                 | Inr tbl \<Rightarrow> (Inr (bounty, doc), db1\<lparr>bounties := tbl\<rparr>)))"

text \<open>The loop that derives the owner key of every input of a new transfer.\<close>

fun deriveOwners :: "lib \<Rightarrow> Database \<Rightarrow> Coin list \<Rightarrow> error + bytes list" where
  "deriveOwners L db [] = Inr []"
| "deriveOwners L db (coin # rest) =
     (case tget c_hash (coinHash L coin) (coins db) of
        None \<Rightarrow> Inl MustExist
      | Some coinDoc \<Rightarrow>
          if \<not> validHash L (c_claimHash coinDoc) then Inl NotError
          else if \<not> validPublicKey L (c_blindingNonce coinDoc) then Inl NotError
          else
            (case deriveOwner L db (c_claimHash coinDoc) (c_blindingNonce coinDoc) of
               Inl e \<Rightarrow> Inl e
             | Inr k \<Rightarrow> (case deriveOwners L db rest of Inl e \<Rightarrow> Inl e | Inr ks \<Rightarrow> Inr (k # ks))))"

text \<open>
  A Dexie transaction: when its body throws, the writes of the body are undone. The calls of
  \<^verbatim>\<open>hi.random\<close> made meanwhile stay made.
\<close>

definition transaction :: "(Database \<Rightarrow> 'a result) \<Rightarrow> Database \<Rightarrow> 'a result" where
  "transaction body db =
     (case body db of
        (Inl e, db') \<Rightarrow> (Inl e, db\<lparr>requests := requests db', randomCalls := randomCalls db'\<rparr>)
      | (Inr x, db') \<Rightarrow> (Inr x, db'))"

definition transferDocOf :: "lib \<Rightarrow> env \<Rightarrow> bytes \<Rightarrow> FullTransfer \<Rightarrow> Transfer" where
  \<comment> \<open>the row written for a new transfer: the given hash, \<^verbatim>\<open>PENDING\<close>, the coin hashes and
      \<^verbatim>\<open>transfer.prune().toPOD()\<close>\<close>
  "transferDocOf L E h transfer =
     \<lparr>t_hash = h,
      t_status = PENDING,
      t_created = now E,
      t_coinHashes = map (coinHash L) (ft_inputs transfer),
      t_inputs = ft_inputs transfer,
      t_bountyHashes = map (bountyHash L) (ft_bounties transfer),
      t_hookoutHash = map_option (hookoutHash L) (ft_hookout transfer),
      t_authorization = ft_authorization transfer\<rparr>"

text \<open>The change bounty: \<^verbatim>\<open>if (coinsToUse.excess > 0) bounties.push(changeBounty)\<close>.\<close>

definition withChange :: "lib \<Rightarrow> env \<Rightarrow> Bounty list \<Rightarrow> int \<Rightarrow> Database \<Rightarrow> Bounty list result" where
  "withChange L E bountyList excess db =
     (if excess > 0 then
        (case newInternalBounty L E excess db of
           (Inl e, db') \<Rightarrow> (Inl e, db')
         | (Inr (changeBounty, changeBountyDoc), db') \<Rightarrow> (Inr (bountyList @ [changeBounty]), db'))
      else (Inr bountyList, db))"

text \<open>The body of the transaction of \<^verbatim>\<open>sendDirect\<close>; \<open>None\<close> is \<^verbatim>\<open>'NOT_ENOUGH_FUNDS'\<close>.\<close>

definition buildDirect :: "lib \<Rightarrow> env \<Rightarrow> bytes \<Rightarrow> int \<Rightarrow> Database
                             \<Rightarrow> (BountyDoc \<times> Transfer \<times> bytes) option result" where
  "buildDirect L E to amount db =
     (case coinselection_findAtLeast E (listUnspent db) (amount + basicTransferFee L) of
        None \<Rightarrow> (Inr None, db)
      | Some (found, excess) \<Rightarrow>
          (let bounty = \<lparr>bounty_amount = amount, bounty_claimant = to,
                         bounty_nonce = random E (randomCalls db) 32\<rparr>;
               db1 = db\<lparr>randomCalls := Suc (randomCalls db)\<rparr>;
               bountyDoc = bountyDocOf L bounty
           in case tadd b_hash bountyDoc (bounties db1) of
                Inl e \<Rightarrow> (Inl e, db1)
              | Inr tbl \<Rightarrow>
                  (case withChange L E [bounty] excess (db1\<lparr>bounties := tbl\<rparr>) of
                     (Inl e, db3) \<Rightarrow> (Inl e, db3)
                   | (Inr unsorted, db3) \<Rightarrow>
                       if \<not> list_all (validCoin L) (map coinFromPOD found) then (Inl NotError, db3)
                       else
                         (let bountyList = Transfer_sort (bountyHash L) unsorted;
                              inputs = Transfer_sort (coinHash L) (map coinFromPOD found);
                              transferHash = hashOf L (map (coinHash L) inputs)
                                               (map (bountyHash L) bountyList) None
                          in case deriveOwners L db3 inputs of
                               Inl e \<Rightarrow> (Inl e, db3)
                             | Inr owners \<Rightarrow>
                                 (let transfer = \<lparr>ft_inputs = inputs, ft_bounties = bountyList,
                                                   ft_hookout = None,
                                                   ft_authorization = computeMu L transferHash owners\<rparr>;
                                      transferDoc = transferDocOf L E (FullTransfer_hash L transfer) transfer
                                  in case tadd t_hash transferDoc (transfers db3) of
                                       Inl e \<Rightarrow> (Inl e, db3)
                                     | Inr tt \<Rightarrow>
                                         (Inr (Some (bountyDoc, transferDoc, transferHash)),
                                          db3\<lparr>transfers := tt\<rparr>))))))"

datatype sent = NOT_ENOUGH_FUNDS | Sent bytes

definition sendDirect :: "lib \<Rightarrow> env \<Rightarrow> bytes \<Rightarrow> int \<Rightarrow> Database \<Rightarrow> sent result" where
  "sendDirect L E to amount db =
     (if \<not> amount > 0 then (Inl MustEqual, db)
      else
        (case transaction (buildDirect L E to amount) db of
           (Inl e, db') \<Rightarrow> (Inl e, db')
         | (Inr None, db') \<Rightarrow> (Inr NOT_ENOUGH_FUNDS, db')
         | (Inr (Some (bountyDoc, transferDoc, transferHash)), db') \<Rightarrow>
             (case finalizeTransfer L E transferDoc db' of
                (Inl e, db'') \<Rightarrow> (Inl e, db'')
              | (Inr u, db'') \<Rightarrow> (Inr (Sent transferHash), db''))))"

definition hookoutDocOf :: "lib \<Rightarrow> Hookout \<Rightarrow> HookoutDoc" where
  "hookoutDocOf L h = \<lparr>o_hash = hookoutHash L h, o_amount = hookout_amount h,
                        o_bitcoinAddress = hookout_bitcoinAddress h,
                        o_immediate = hookout_immediate h, o_nonce = hookout_nonce h\<rparr>"

text \<open>
  The body of the transaction of \<^verbatim>\<open>sendToBitcoinAddress\<close>. The fee rate is a rational
  number; the rounding of the floating-point product is not modelled.
\<close>

definition buildToBitcoinAddress :: "lib \<Rightarrow> env \<Rightarrow> string \<Rightarrow> int \<Rightarrow> rat \<Rightarrow> Database
                                       \<Rightarrow> (Transfer \<times> bytes) option result" where
  "buildToBitcoinAddress L E address amount feeRate db =
     (case coinselection_findAtLeast E (listUnspent db)
             (amount + \<lceil>feeRate * of_int (templateTransactionWeight L)\<rceil>) of
        None \<Rightarrow> (Inr None, db)
      | Some (found, excess) \<Rightarrow>
          (let hookout = \<lparr>hookout_amount = amount, hookout_bitcoinAddress = address,
                          hookout_immediate = True,
                          hookout_nonce = random E (randomCalls db) 32\<rparr>;
               db1 = db\<lparr>randomCalls := Suc (randomCalls db)\<rparr>
           in case tadd o_hash (hookoutDocOf L hookout) (hookouts db1) of
                Inl e \<Rightarrow> (Inl e, db1)
              | Inr tbl \<Rightarrow>
                  (case withChange L E [] excess (db1\<lparr>hookouts := tbl\<rparr>) of
                     (Inl e, db3) \<Rightarrow> (Inl e, db3)
                   | (Inr bountyList, db3) \<Rightarrow>
                       if \<not> list_all (validCoin L) (map coinFromPOD found) then (Inl NotError, db3)
                       else
                         (let inputs = Transfer_sort (coinHash L) (map coinFromPOD found);
                              transferHash = hashOf L (map (coinHash L) inputs)
                                               (map (bountyHash L) bountyList)
                                               (Some (hookoutHash L hookout))
                          in case deriveOwners L db3 inputs of
                               Inl e \<Rightarrow> (Inl e, db3)
                             | Inr owners \<Rightarrow>
                                 (let transfer = \<lparr>ft_inputs = inputs, ft_bounties = bountyList,
                                                   ft_hookout = Some hookout,
                                                   ft_authorization = computeMu L transferHash owners\<rparr>
                                  in if \<not> isValid L transfer then (Inl TransferNotValid, db3)
                                     else
                                       (case tadd t_hash (transferDocOf L E transferHash transfer)
                                               (transfers db3) of
                                          Inl e \<Rightarrow> (Inl e, db3)
                                        | Inr tt \<Rightarrow>
                                            (Inr (Some (transferDocOf L E transferHash transfer,
                                                        transferHash)),
                                             db3\<lparr>transfers := tt\<rparr>)))))))"

definition sendToBitcoinAddress :: "lib \<Rightarrow> env \<Rightarrow> string \<Rightarrow> int \<Rightarrow> rat \<Rightarrow> Database \<Rightarrow> sent result" where
  "sendToBitcoinAddress L E address amount feeRate db =
     (case transaction (buildToBitcoinAddress L E address amount feeRate) db of
        (Inl e, db') \<Rightarrow> (Inl e, db')
      | (Inr None, db') \<Rightarrow> (Inr NOT_ENOUGH_FUNDS, db')
      | (Inr (Some (transferDoc, transferHash)), db') \<Rightarrow>
          (case finalizeTransfer L E transferDoc db' of
             (Inl e, db'') \<Rightarrow> (Inl e, db'')
           | (Inr u, db'') \<Rightarrow> (Inr (Sent transferHash), db'')))"

subsection \<open>The coin selector\<close>

text \<open>
  Modelled from the spec: \<^verbatim>\<open>findAtLeast\<close> of \<^verbatim>\<open>./coin-selection\<close>, which is not among
  the sources. The spec: "sort by descending magnitude; greedily take the largest coin \<open>\<le>\<close>
  remaining need repeatedly to cover the bulk, falling back to the smallest available coin
  that still completes the target when no equal-or-smaller perfect fit exists", returning
  "the selected subset plus computed excess = sum(selected) - target", and reporting
  infeasibility "when no subset sums to at least the target".

  \<open>select\<close> walks the coins in descending order: a coin that fits the remaining need is
  taken, a larger one is remembered, so that the last one remembered is the smallest coin
  left that completes the target.
\<close>

definition coinValue :: "CoinDoc \<Rightarrow> int" where
  "coinValue c = 2 ^ c_magnitude c"

fun select :: "CoinDoc list \<Rightarrow> int \<Rightarrow> CoinDoc list \<Rightarrow> CoinDoc option \<Rightarrow> CoinDoc list option" where
  "select [] need taken fallback =
     (if need \<le> 0 then Some taken
      else case fallback of None \<Rightarrow> None | Some c \<Rightarrow> Some (taken @ [c]))"
| "select (c # cs) need taken fallback =
     (if need \<le> 0 then Some taken
      else if coinValue c \<le> need then select cs (need - coinValue c) (taken @ [c]) fallback
      else select cs need taken (Some c))"

definition findAtLeast :: "CoinDoc list \<Rightarrow> int \<Rightarrow> (CoinDoc list \<times> int) option" where
  "findAtLeast unspent target =
     (case select (rev (sort_key c_magnitude unspent)) target [] None of
        None \<Rightarrow> None
      | Some found \<Rightarrow> Some (found, sum_list (map coinValue found) - target))"

subsection \<open>The decomposition of an amount\<close>

text \<open>
  Modelled from the spec: \<^verbatim>\<open>hi.amountToMagnitudes\<close> of \<^verbatim>\<open>hookedin-lib\<close>. The spec:
  "Split the amount into one coin request per magnitude in its canonical power-of-two
  decomposition (most amounts become multiple coins, one per set bit)". \<open>setBits a m\<close>
  lists the set bits of \<open>a\<close>, the lowest counted as \<open>m\<close>.
\<close>

function setBits :: "int \<Rightarrow> nat \<Rightarrow> nat list" where
  "setBits a m = (if a \<le> 0 then [] else (if odd a then [m] else []) @ setBits (a div 2) (Suc m))"
  by pat_completeness auto
termination
  by (relation "measure (\<lambda>(a, m). nat a)") auto

declare setBits.simps [simp del]

definition canonicalMagnitudes :: "int \<Rightarrow> nat list" where
  "canonicalMagnitudes a = rev (setBits a 0)"

definition magnitudesValue :: "nat list \<Rightarrow> int" where
  "magnitudesValue ms = sum_list (map (\<lambda>m. 2 ^ m) ms)"

subsection \<open>A concrete library, environment and wallet\<close>

text \<open>
  An instance of the parameters on which the theorems below are run: the hash concatenates
  its arguments, a public key is the private key behind a marker byte, every check of the
  library accepts.
\<close>

definition demoLib :: lib where
  "demoLib =
     \<lparr>fromMessage = (\<lambda>label buffers. map of_char label @ concat buffers),
      privateKeyFromBytes = Some,
      derive = (\<lambda>k n. k @ n),
      toPublicKey = (\<lambda>k. 1 # k),
      tweak = (\<lambda>a b. a @ b),
      toBitcoinAddress = (\<lambda>k. ''bc1'' @ [char_of (unat (last k))]),
      fromUint8 = (\<lambda>i. [of_int i]),
      fromVarInt = (\<lambda>i. [of_int i]),
      amountToMagnitudes = canonicalMagnitudes,
      coinHash = (\<lambda>c. 2 # coin_owner c),
      bountyHash = (\<lambda>b. 3 # bounty_nonce b),
      hookinHash = (\<lambda>h. 4 # hookin_txid h),
      hookoutHash = (\<lambda>h. 5 # hookout_nonce h),
      hashOf = (\<lambda>ins outs h. 6 # concat ins @ concat outs @ (case h of None \<Rightarrow> [] | Some x \<Rightarrow> x)),
      computeMu = (\<lambda>m ks. m @ concat ks),
      blindMessage = (\<lambda>secret nonce signer message. (secret, message @ nonce)),
      unblind = (\<lambda>unblinder blinded. blinded),
      verify = (\<lambda>proof message signer. True),
      validPublicKey = (\<lambda>k. True),
      validHash = (\<lambda>h. True),
      validSignature = (\<lambda>s. True),
      validCoin = (\<lambda>c. True),
      validBounty = (\<lambda>b. True),
      validHookin = (\<lambda>h. True),
      validHookout = (\<lambda>h. True),
      isValid = (\<lambda>t. True),
      fundingPublicKey = [7],
      blindingCoinPublicKeys = (\<lambda>n. [of_nat n]),
      transactionConsolidationFee = 100,
      basicTransferFee = 1,
      templateTransactionWeight = 4\<rparr>"

text \<open>The constructor of the class: empty tables, no seed.\<close>

definition newDatabase :: Database where
  "newDatabase =
     \<lparr>bounties = [], config = None, claims = [], coins = [], hookins = [],
      bitcoinAddresses = [], directAddresses = [], hookouts = [], transfers = [],
      seed = None, requests = [], randomCalls = 0\<rparr>"

definition demoConfig :: Config where
  "demoConfig =
     \<lparr>cfg_bitcoinAddressGenerator = [], cfg_directAddressGenerator = [],
      cfg_internalAddressGenerator = [], cfg_mnemonic = ''abandon'', cfg_baseAPI = ''api'',
      cfg_gapLimit = 3\<rparr>"

text \<open>An unlocked wallet with gap limit 3 and empty tables.\<close>

definition demoDb :: Database where
  "demoDb = newDatabase\<lparr>config := Some demoConfig, seed := Some [42]\<rparr>"

definition demoAddress :: "int \<Rightarrow> string" where
  "demoAddress i = (case deriveBitcoinAddressIndex demoLib demoDb i of
                      Inl e \<Rightarrow> [] | Inr (claimant, bitcoinAddress) \<Rightarrow> bitcoinAddress)"

text \<open>
  A claim request as the engine's \<^verbatim>\<open>makeClaim\<close> assembles it and the server answers
  it: one coin claim per magnitude, the nonce of the k-th being the byte of its magnitude.
\<close>

definition demoMakeClaim :: "(bytes \<Rightarrow> bytes \<Rightarrow> error + bytes) \<Rightarrow> (bytes \<Rightarrow> bytes \<Rightarrow> error + bytes)
                               \<Rightarrow> bytes \<Rightarrow> claimable \<Rightarrow> nat list \<Rightarrow> error + Claim" where
  "demoMakeClaim secretOf ownerOf claimant target magnitudes =
     (let claimHash = (case target of ClaimBounty b \<Rightarrow> bountyHash demoLib b
                                    | ClaimHookin h \<Rightarrow> hookinHash demoLib h)
      in Inr \<lparr>cl_acknowledgement = [9],
              cl_claimRequest =
                \<lparr>cr_claim = claimHash,
                 cr_coins = map (\<lambda>m. \<lparr>cc_blindingNonce = [of_nat m],
                                       cc_blindedOwner =
                                         (case ownerOf claimHash [of_nat m] of
                                            Inl e \<Rightarrow> []
                                          | Inr k \<Rightarrow> toPublicKey demoLib k @ [of_nat m]),
                                       cc_magnitude = m\<rparr>) magnitudes,
                 cr_authorization = claimant\<rparr>,
              cl_blindedReceipts = map (\<lambda>m. [of_nat m]) magnitudes\<rparr>)"

text \<open>The receive lookup that reports one receipt at index 0 and one at index 4.\<close>

definition demoEnv :: env where
  "demoEnv =
     \<lparr>fetchBitcoinReceives =
        (\<lambda>a. if a = demoAddress 0 then [\<lparr>r_txid = [10], r_vout = 0, r_amount = 105\<rparr>]
              else if a = demoAddress 4 then [\<lparr>r_txid = [14], r_vout = 1, r_amount = 103\<rparr>]
              else []),
      makeClaim = demoMakeClaim,
      submitTransfer = (\<lambda>t. Inl (''INPUT_SPENT'', 400)),
      lookupCoin = (\<lambda>owner. None),
      lookupTransfer = (\<lambda>h. None),
      random = (\<lambda>k n. replicate n (of_nat k)),
      now = 0,
      coinselection_findAtLeast = findAtLeast\<rparr>"

text \<open>A coin of magnitude 2, and a pending transfer that spends it.\<close>

definition demoCoin :: CoinDoc where
  "demoCoin = \<lparr>c_hash = [2, 1], c_claimHash = [4, 10], c_blindingNonce = [0], c_owner = [1],
               c_magnitude = 2, c_existenceProof = [0]\<rparr>"

definition demoTransfer :: Transfer where
  "demoTransfer = \<lparr>t_hash = [6, 2, 1], t_status = PENDING, t_created = 0,
                   t_coinHashes = [[2, 1]], t_inputs = [coinFromPOD demoCoin],
                   t_bountyHashes = [], t_hookoutHash = None, t_authorization = [8]\<rparr>"

definition demoSpendDb :: Database where
  "demoSpendDb = demoDb\<lparr>coins := [demoCoin], transfers := [demoTransfer]\<rparr>"

text \<open>The environment whose settlement server acknowledges every transfer.\<close>

definition ackEnv :: env where
  "ackEnv = demoEnv\<lparr>submitTransfer := (\<lambda>t. Inr [9])\<rparr>"

text \<open>A wallet that knows one deposit and one bounty, neither claimed yet, and the same wallet
  after each has been claimed.\<close>

definition demoHookin :: HookinDoc where
  "demoHookin = \<lparr>h_hash = [4, 10], h_bitcoinAddress = demoAddress 0, h_created = 0,
                 h_txid = [10], h_vout = 0, h_amount = 105, h_creditTo = [1, 0]\<rparr>"

definition demoBounty :: BountyDoc where
  "demoBounty = \<lparr>b_hash = [3, 33], b_amount = 6, b_claimant = [1, 7], b_nonce = [33]\<rparr>"

definition demoDirectAddress :: DirectAddress where
  "demoDirectAddress = \<lparr>da_claimant = [1, 7], da_index = 0, da_isInternal = False\<rparr>"

definition demoFundedDb :: Database where
  "demoFundedDb =
     demoDb\<lparr>bitcoinAddresses := [\<lparr>ba_address = demoAddress 0, ba_claimant = [1, 0], ba_index = 0\<rparr>],
            hookins := [demoHookin],
            directAddresses := [demoDirectAddress],
            bounties := [demoBounty]\<rparr>"

definition demoClaimedDb :: Database where
  "demoClaimedDb = snd (claimHookin demoLib demoEnv demoHookin demoFundedDb)"

definition demoClaimedDb2 :: Database where
  "demoClaimedDb2 = snd (claimBountyWithAddress demoLib demoEnv demoBounty demoDirectAddress demoFundedDb)"













text \<open>The commitment hash recomputed from a stored row.\<close>

definition recomputed :: "lib \<Rightarrow> Transfer \<Rightarrow> bytes" where
  "recomputed L row = hashOf L (t_coinHashes row) (t_bountyHashes row) (t_hookoutHash row)"

text \<open>
  Two sends from the wallet that has claimed its deposit (coins of value 4 and 1): 2 to a
  claimant key, 2 to a bitcoin address at half a unit of fee per weight unit; what their
  transactions build, and what the selector finds for the first.
\<close>

definition demoSent :: "sent result" where
  "demoSent = sendDirect demoLib ackEnv [1, 9] 2 demoClaimedDb"

definition demoSentOnChain :: "sent result" where
  "demoSentOnChain = sendToBitcoinAddress demoLib ackEnv ''bc1q'' 2 (1 / 2) demoClaimedDb"

definition sentHash :: "sent result \<Rightarrow> bytes" where
  "sentHash r = (case fst r of Inr (Sent h) \<Rightarrow> h | _ \<Rightarrow> [])"

definition demoBuilt :: "(BountyDoc \<times> Transfer \<times> bytes) option result" where
  "demoBuilt = buildDirect demoLib ackEnv [1, 9] 2 demoClaimedDb"

definition demoBuiltBounty :: BountyDoc where
  "demoBuiltBounty = (case fst demoBuilt of Inr (Some (bd, td, th)) \<Rightarrow> bd | _ \<Rightarrow> demoBounty)"

definition demoBuiltDoc :: Transfer where
  "demoBuiltDoc = (case fst demoBuilt of Inr (Some (bd, td, th)) \<Rightarrow> td | _ \<Rightarrow> demoTransfer)"

definition demoBuiltOnChain :: "(Transfer \<times> bytes) option result" where
  "demoBuiltOnChain = buildToBitcoinAddress demoLib ackEnv ''bc1q'' 2 (1 / 2) demoClaimedDb"

definition demoBuiltDoc2 :: Transfer where
  "demoBuiltDoc2 = (case fst demoBuiltOnChain of Inr (Some (td, th)) \<Rightarrow> td | _ \<Rightarrow> demoTransfer)"

definition demoFound :: "CoinDoc list" where
  "demoFound = (case findAtLeast (listUnspent demoClaimedDb) 3 of Some (f, e) \<Rightarrow> f | None \<Rightarrow> [])"

section \<open>Properties\<close>

subsection \<open>Tables\<close>

lemma set_tput: "set (tput key r rows) = insert r {x \<in> set rows. key x \<noteq> key r}"
  by (auto simp: tput_def)

lemma tget_tput_same: "tget key (key r) (tput key r rows) = Some r"
  by (induction rows) (auto simp: tget_def tput_def)

lemma tget_tput_other: "k \<noteq> key r \<Longrightarrow> tget key k (tput key r rows) = tget key k rows"
  by (induction rows) (auto simp: tget_def tput_def)


lemma listUnspent_mem:
  "c \<in> set (listUnspent db) \<longleftrightarrow>
     c \<in> set (coins db) \<and>
     (\<forall>t \<in> set (transfers db). kind (t_status t) \<noteq> ''CONFLICTED'' \<longrightarrow> c_hash c \<notin> set (t_coinHashes t))"
  by (auto simp: listUnspent_def spentCoinHashes_def spentTransfers_def)

subsection \<open>What the claim routines leave alone\<close>

lemma processClaimResponse_keeps [simp]:
  "transfers (processClaimResponse L r db) = transfers db"
  "seed (processClaimResponse L r db) = seed db"
  "config (processClaimResponse L r db) = config db"
  "bitcoinAddresses (processClaimResponse L r db) = bitcoinAddresses db"
  "hookins (processClaimResponse L r db) = hookins db"
  "requests (processClaimResponse L r db) = requests db"
  by (simp_all add: processClaimResponse_def Let_def split: sum.splits)

lemma claimBountyWithAddress_keeps [simp]:
  "transfers (snd (claimBountyWithAddress L E b a db)) = transfers db"
  "seed (snd (claimBountyWithAddress L E b a db)) = seed db"
  by (simp_all add: claimBountyWithAddress_def logRequest_def Let_def split: sum.splits option.splits)

lemma claimOwnBounties_keeps [simp]:
  "transfers (claimOwnBounties L E bds db) = transfers db"
proof (induction bds arbitrary: db)
  case Nil
  then show ?case by simp
next
  case (Cons b bds)
  show ?case
  proof (cases "tget da_claimant (b_claimant b) (directAddresses db)")
    case None
    then show ?thesis using Cons by simp
  next
    case (Some a)
    obtain r db' where c: "claimBountyWithAddress L E b a db = (r, db')"
      by (cases "claimBountyWithAddress L E b a db")
    then have "transfers db' = transfers db"
      using claimBountyWithAddress_keeps(1) [of L E b a db] by simp
    then show ?thesis
      using Some c Cons by (cases r) simp_all
  qed
qed


subsection \<open>Runs on the concrete wallet\<close>

lemma discard_demo:
  "discardTransfer demoTransfer demoSpendDb
     = (Inr (), demoSpendDb\<lparr>transfers := [demoTransfer\<lparr>t_status := CONFLICTED\<rparr>]\<rparr>)"
  by (simp add: discardTransfer_def demoTransfer_def demoSpendDb_def tput_def)

lemma finalize_demo_ack:
  "finalizeTransfer demoLib ackEnv demoTransfer demoSpendDb
     = (Inr (), demoSpendDb\<lparr>transfers := [demoTransfer\<lparr>t_status := ACKNOWLEDGED [9]\<rparr>],
                            requests := [SubmitTransfer \<lparr>ft_inputs = [coinFromPOD demoCoin], ft_bounties = [],
                               ft_hookout = None, ft_authorization = [8]\<rparr>]\<rparr>)"
  by (simp add: finalizeTransfer_def assembleFullTransfer_def getHookout_def logRequest_def
        demoTransfer_def demoSpendDb_def demoDb_def newDatabase_def tput_def ackEnv_def demoEnv_def demoLib_def)

subsection \<open>Key derivation\<close>

text \<open>
  C7. \<^verbatim>\<open>deriveOwner\<close> and \<^verbatim>\<open>deriveBlindingSecret\<close> read nothing of the wallet but the
  seed: on two databases that hold the same seed, whatever their tables, the same claim
  hash and blinding nonce give the same result.
\<close>

theorem deriveOwner_seed_only:
  assumes "seed db1 = seed db2"
  shows "deriveOwner L db1 claimHash blindingNonce = deriveOwner L db2 claimHash blindingNonce
       \<and> deriveBlindingSecret L db1 claimHash blindingNonce
           = deriveBlindingSecret L db2 claimHash blindingNonce"
  using assms by (simp add: deriveOwner_def deriveBlindingSecret_def)

theorem deriveOwner_seed_only_witness:
  "deriveOwner demoLib demoDb [1] [2] = Inr (map of_char ''HIChain.deriveOwner'' @ [42, 1, 2])
   \<and> deriveOwner demoLib demoSpendDb [1] [2] = deriveOwner demoLib demoDb [1] [2]
   \<and> deriveBlindingSecret demoLib demoSpendDb [1] [2] = deriveBlindingSecret demoLib demoDb [1] [2]"
proof -
  have s: "seed demoSpendDb = seed demoDb"
    by (simp add: demoSpendDb_def)
  have v: "deriveOwner demoLib demoDb [1] [2] = Inr (map of_char ''HIChain.deriveOwner'' @ [42, 1, 2])"
    by (simp add: deriveOwner_def demoDb_def demoLib_def newDatabase_def)
  show ?thesis
    using deriveOwner_seed_only [OF s, of demoLib "[1]" "[2]"] v by simp
qed



subsection \<open>Unspent coins and the status of a transfer\<close>

text \<open>
  C1. A stored coin is listed by \<^verbatim>\<open>listUnspent\<close> if and only if no transfer whose status
  kind is not \<^verbatim>\<open>'CONFLICTED'\<close> holds its hash among its coin hashes. Hence: a coin of a
  \<^verbatim>\<open>PENDING\<close> transfer is not listed; after \<^verbatim>\<open>discardTransfer\<close> has made that transfer
  \<^verbatim>\<open>CONFLICTED\<close> the coin is listed exactly when no other transfer reserves it; after
  \<^verbatim>\<open>finalizeTransfer\<close> has made the transfer \<^verbatim>\<open>ACKNOWLEDGED\<close> the coin is not listed.
\<close>

theorem listUnspent_excludes_reserved:
  "(c \<in> set (listUnspent db) \<longleftrightarrow>
      c \<in> set (coins db) \<and>
      (\<forall>t \<in> set (transfers db). kind (t_status t) \<noteq> ''CONFLICTED'' \<longrightarrow> c_hash c \<notin> set (t_coinHashes t)))
   \<and> (\<forall>t \<in> set (transfers db). kind (t_status t) = ''PENDING'' \<and> c_hash c \<in> set (t_coinHashes t)
         \<longrightarrow> c \<notin> set (listUnspent db))
   \<and> (\<forall>t db'. c_hash c \<in> set (t_coinHashes t) \<and> discardTransfer t db = (Inr (), db') \<longrightarrow>
         (c \<in> set (listUnspent db') \<longleftrightarrow>
            c \<in> set (coins db) \<and>
            (\<forall>u \<in> set (transfers db). t_hash u \<noteq> t_hash t \<longrightarrow> kind (t_status u) \<noteq> ''CONFLICTED''
                \<longrightarrow> c_hash c \<notin> set (t_coinHashes u))))
   \<and> (\<forall>t db'. c_hash c \<in> set (t_coinHashes t) \<and> finalizeTransfer L E t db = (Inr (), db') \<longrightarrow>
         c \<notin> set (listUnspent db'))"
proof (intro conjI allI impI ballI)
  show "c \<in> set (listUnspent db) \<longleftrightarrow>
      c \<in> set (coins db) \<and>
      (\<forall>t \<in> set (transfers db). kind (t_status t) \<noteq> ''CONFLICTED'' \<longrightarrow> c_hash c \<notin> set (t_coinHashes t))"
    by (rule listUnspent_mem)
next
  fix t
  assume "t \<in> set (transfers db)"
    and "kind (t_status t) = ''PENDING'' \<and> c_hash c \<in> set (t_coinHashes t)"
  then show "c \<notin> set (listUnspent db)"
    unfolding listUnspent_mem [of c db] by force
next
  fix t db'
  assume a: "c_hash c \<in> set (t_coinHashes t) \<and> discardTransfer t db = (Inr (), db')"
  then have db': "db' = db\<lparr>transfers := tput t_hash (t\<lparr>t_status := CONFLICTED\<rparr>) (transfers db)\<rparr>"
    by (auto simp: discardTransfer_def split: if_splits)
  show "c \<in> set (listUnspent db') \<longleftrightarrow>
            c \<in> set (coins db) \<and>
            (\<forall>u \<in> set (transfers db). t_hash u \<noteq> t_hash t \<longrightarrow> kind (t_status u) \<noteq> ''CONFLICTED''
                \<longrightarrow> c_hash c \<notin> set (t_coinHashes u))"
    by (auto simp: db' listUnspent_mem set_tput)
next
  fix t db'
  assume a: "c_hash c \<in> set (t_coinHashes t) \<and> finalizeTransfer L E t db = (Inr (), db')"
  then obtain ack where "transfers db' = tput t_hash (t\<lparr>t_status := ACKNOWLEDGED ack\<rparr>) (transfers db)"
    by (auto simp: finalizeTransfer_def logRequest_def Let_def
          split: if_splits sum.splits prod.splits)
  then have "t\<lparr>t_status := ACKNOWLEDGED ack\<rparr> \<in> set (transfers db')"
    by (simp add: set_tput)
  with a show "c \<notin> set (listUnspent db')"
    unfolding listUnspent_mem [of c db'] by force
qed

theorem listUnspent_excludes_reserved_witness:
  "demoCoin \<notin> set (listUnspent demoSpendDb)
   \<and> demoCoin \<in> set (listUnspent (snd (discardTransfer demoTransfer demoSpendDb)))
   \<and> demoCoin \<notin> set (listUnspent (snd (finalizeTransfer demoLib ackEnv demoTransfer demoSpendDb)))"
proof -
  note T = listUnspent_excludes_reserved [of demoCoin demoSpendDb demoLib ackEnv]
  have m: "demoTransfer \<in> set (transfers demoSpendDb)"
    "kind (t_status demoTransfer) = ''PENDING''"
    "c_hash demoCoin \<in> set (t_coinHashes demoTransfer)"
    "demoCoin \<in> set (coins demoSpendDb)"
    "transfers demoSpendDb = [demoTransfer]"
    by (simp_all add: demoSpendDb_def demoTransfer_def demoCoin_def)
  have 1: "demoCoin \<notin> set (listUnspent demoSpendDb)"
    using T m by blast
  have 2: "demoCoin \<in> set (listUnspent (snd (discardTransfer demoTransfer demoSpendDb)))"
    using T m discard_demo by simp
  have 3: "demoCoin \<notin> set (listUnspent (snd (finalizeTransfer demoLib ackEnv demoTransfer demoSpendDb)))"
    using T m finalize_demo_ack by simp
  show ?thesis using 1 2 3 by simp
qed

text \<open>
  C5. On a transfer whose status kind is not \<^verbatim>\<open>'PENDING'\<close>, \<^verbatim>\<open>finalizeTransfer\<close> and
  \<^verbatim>\<open>discardTransfer\<close> throw and leave the database as it was. On a \<^verbatim>\<open>PENDING\<close>
  transfer \<^verbatim>\<open>discardTransfer\<close> returns, the row of the transfer now has the status
  \<^verbatim>\<open>CONFLICTED\<close>, and nothing else changed.
\<close>

theorem non_pending_rejected:
  "(kind (t_status t) \<noteq> ''PENDING'' \<longrightarrow>
      finalizeTransfer L E t db = (Inl TransferMustBePending, db)
      \<and> discardTransfer t db = (Inl TransferMustBePending, db))
   \<and> (kind (t_status t) = ''PENDING'' \<longrightarrow>
      (\<exists>db'. discardTransfer t db = (Inr (), db')
         \<and> tget t_hash (t_hash t) (transfers db') = Some (t\<lparr>t_status := CONFLICTED\<rparr>)
         \<and> (\<forall>k. k \<noteq> t_hash t \<longrightarrow> tget t_hash k (transfers db') = tget t_hash k (transfers db))
         \<and> db' = db\<lparr>transfers := transfers db'\<rparr>))"
proof -
  have "tget t_hash (t_hash t) (tput t_hash (t\<lparr>t_status := CONFLICTED\<rparr>) (transfers db))
          = Some (t\<lparr>t_status := CONFLICTED\<rparr>)"
    using tget_tput_same [of t_hash "t\<lparr>t_status := CONFLICTED\<rparr>" "transfers db"] by simp
  moreover have "\<And>k. k \<noteq> t_hash t \<Longrightarrow>
      tget t_hash k (tput t_hash (t\<lparr>t_status := CONFLICTED\<rparr>) (transfers db)) = tget t_hash k (transfers db)"
    using tget_tput_other [of _ t_hash "t\<lparr>t_status := CONFLICTED\<rparr>" "transfers db"] by simp
  ultimately show ?thesis
    by (simp add: finalizeTransfer_def discardTransfer_def)
qed

theorem non_pending_rejected_witness:
  "finalizeTransfer demoLib demoEnv (demoTransfer\<lparr>t_status := CONFLICTED\<rparr>) demoSpendDb
      = (Inl TransferMustBePending, demoSpendDb)
   \<and> discardTransfer (demoTransfer\<lparr>t_status := ACKNOWLEDGED [9]\<rparr>) demoSpendDb
      = (Inl TransferMustBePending, demoSpendDb)
   \<and> fst (discardTransfer demoTransfer demoSpendDb) = Inr ()
   \<and> tget t_hash (t_hash demoTransfer) (transfers (snd (discardTransfer demoTransfer demoSpendDb)))
      = Some (demoTransfer\<lparr>t_status := CONFLICTED\<rparr>)"
proof -
  have 1: "finalizeTransfer demoLib demoEnv (demoTransfer\<lparr>t_status := CONFLICTED\<rparr>) demoSpendDb
      = (Inl TransferMustBePending, demoSpendDb)"
    using non_pending_rejected [of "demoTransfer\<lparr>t_status := CONFLICTED\<rparr>" demoLib demoEnv demoSpendDb]
    by simp
  have 2: "discardTransfer (demoTransfer\<lparr>t_status := ACKNOWLEDGED [9]\<rparr>) demoSpendDb
      = (Inl TransferMustBePending, demoSpendDb)"
    using non_pending_rejected [of "demoTransfer\<lparr>t_status := ACKNOWLEDGED [9]\<rparr>" demoLib demoEnv demoSpendDb]
    by simp
  have p: "kind (t_status demoTransfer) = ''PENDING''"
    by (simp add: demoTransfer_def)
  have 3: "fst (discardTransfer demoTransfer demoSpendDb) = Inr ()
     \<and> tget t_hash (t_hash demoTransfer) (transfers (snd (discardTransfer demoTransfer demoSpendDb)))
      = Some (demoTransfer\<lparr>t_status := CONFLICTED\<rparr>)"
    using non_pending_rejected [of demoTransfer demoLib demoEnv demoSpendDb] p by auto
  show ?thesis using 1 2 3 by simp
qed

subsection \<open>Claiming twice\<close>

lemma filter_tput_same: "filter (\<lambda>x. key x = key r) (tput key r rows) = [r]"
  by (induction rows) (auto simp: tput_def)

lemma filter_tput_other: "key r \<noteq> k \<Longrightarrow> filter (\<lambda>x. key x = k) (tput key r rows) = filter (\<lambda>x. key x = k) rows"
  by (induction rows) (auto simp: tput_def)

lemma processClaimResponse_claims:
  "claims (processClaimResponse L r db) = claims db
   \<or> claims (processClaimResponse L r db) = tput claimKey r (claims db)"
  by (simp add: processClaimResponse_def Let_def split: sum.splits)

lemma persisted_once:
  assumes "tget claimKey k (claims db) = None"
    and "tget claimKey k (claims (processClaimResponse L r db)) \<noteq> None"
  shows "filter (\<lambda>c. claimKey c = k) (claims (processClaimResponse L r db)) = [r]"
proof -
  from assms processClaimResponse_claims [of L r db]
  have c: "claims (processClaimResponse L r db) = tput claimKey r (claims db)"
    by auto
  have "claimKey r = k"
  proof (rule ccontr)
    assume "claimKey r \<noteq> k"
    then have "tget claimKey k (tput claimKey r (claims db)) = tget claimKey k (claims db)"
      using tget_tput_other [of k claimKey r "claims db"] by simp
    with assms c show False by simp
  qed
  then show ?thesis
    using c filter_tput_same [of claimKey r "claims db"] by auto
qed

lemma demo_unclaimed:
  "tget claimKey (h_hash demoHookin) (claims demoFundedDb) = None"
  "tget claimKey (b_hash demoBounty) (claims demoFundedDb) = None"
  by (simp_all add: demoFundedDb_def demoDb_def newDatabase_def tget_def)

lemma demo_claimHookin:
  "claimHookin demoLib demoEnv demoHookin demoFundedDb = (Inr (), demoClaimedDb)"
proof -
  have "fst (claimHookin demoLib demoEnv demoHookin demoFundedDb) = Inr ()"
    by code_simp
  then show ?thesis
    by (simp add: demoClaimedDb_def prod_eq_iff)
qed

lemma demo_claimBounty:
  "claimBountyWithAddress demoLib demoEnv demoBounty demoDirectAddress demoFundedDb = (Inr (), demoClaimedDb2)"
proof -
  have "fst (claimBountyWithAddress demoLib demoEnv demoBounty demoDirectAddress demoFundedDb) = Inr ()"
    by code_simp
  then show ?thesis
    by (simp add: demoClaimedDb2_def prod_eq_iff)
qed

lemma demo_claimed:
  "tget claimKey (h_hash demoHookin) (claims demoClaimedDb) \<noteq> None"
  "tget claimKey (b_hash demoBounty) (claims demoClaimedDb2) \<noteq> None"
  "tget da_claimant (b_claimant demoBounty) (directAddresses demoClaimedDb2) \<noteq> None"
  by code_simp+

text \<open>
  C2. When the table \<^verbatim>\<open>claims\<close> holds a record for the hash of a hookin or a bounty, the
  claim routine returns at once: the database, its log of network round trips included, is
  the one it was given. So when a first call has persisted its claim, a second call changes
  nothing, and the table holds exactly one record for that hash.
\<close>

theorem claim_again_is_noop:
  "(tget claimKey (h_hash hookinDoc) (claims db) \<noteq> None \<longrightarrow>
      claimHookin L E hookinDoc db = (Inr (), db))
   \<and> (tget claimKey (b_hash bountyDoc) (claims db) \<noteq> None \<longrightarrow>
      claimBountyWithAddress L E bountyDoc address db = (Inr (), db)
      \<and> snd (claimBounty L E bountyDoc db) = db
      \<and> (tget da_claimant (b_claimant bountyDoc) (directAddresses db) \<noteq> None \<longrightarrow>
           claimBounty L E bountyDoc db = (Inr (), db)))
   \<and> (tget claimKey (h_hash hookinDoc) (claims db) = None
        \<and> claimHookin L E hookinDoc db = (Inr (), db1)
        \<and> tget claimKey (h_hash hookinDoc) (claims db1) \<noteq> None \<longrightarrow>
      claimHookin L E hookinDoc db1 = (Inr (), db1)
      \<and> length (filter (\<lambda>c. claimKey c = h_hash hookinDoc) (claims db1)) = 1)
   \<and> (tget claimKey (b_hash bountyDoc) (claims db) = None
        \<and> claimBountyWithAddress L E bountyDoc address db = (Inr (), db2)
        \<and> tget claimKey (b_hash bountyDoc) (claims db2) \<noteq> None \<longrightarrow>
      claimBountyWithAddress L E bountyDoc address db2 = (Inr (), db2)
      \<and> length (filter (\<lambda>c. claimKey c = b_hash bountyDoc) (claims db2)) = 1)"
proof (intro conjI impI)
  assume "tget claimKey (h_hash hookinDoc) (claims db) \<noteq> None"
  then show "claimHookin L E hookinDoc db = (Inr (), db)"
    by (auto simp: claimHookin_def)
next
  assume a: "tget claimKey (b_hash bountyDoc) (claims db) \<noteq> None"
  then show w: "claimBountyWithAddress L E bountyDoc address db = (Inr (), db)"
    by (auto simp: claimBountyWithAddress_def)
  from a have any: "\<And>ad. claimBountyWithAddress L E bountyDoc ad db = (Inr (), db)"
    by (auto simp: claimBountyWithAddress_def)
  show "snd (claimBounty L E bountyDoc db) = db"
    by (simp add: claimBounty_def any split: option.splits)
  assume "tget da_claimant (b_claimant bountyDoc) (directAddresses db) \<noteq> None"
  then show "claimBounty L E bountyDoc db = (Inr (), db)"
    by (auto simp: claimBounty_def any)
next
  assume a: "tget claimKey (h_hash hookinDoc) (claims db) = None
        \<and> claimHookin L E hookinDoc db = (Inr (), db1)
        \<and> tget claimKey (h_hash hookinDoc) (claims db1) \<noteq> None"
  then show "claimHookin L E hookinDoc db1 = (Inr (), db1)"
    by (auto simp: claimHookin_def)
  from a obtain r rq where db1: "db1 = processClaimResponse L r (logRequest rq db)"
    by (auto simp: claimHookin_def Let_def split: option.splits sum.splits prod.splits if_splits)
  have "claims (logRequest rq db) = claims db"
    by (simp add: logRequest_def)
  with a db1 have "filter (\<lambda>c. claimKey c = h_hash hookinDoc) (claims db1) = [r]"
    using persisted_once [of "h_hash hookinDoc" "logRequest rq db" L r] by simp
  then show "length (filter (\<lambda>c. claimKey c = h_hash hookinDoc) (claims db1)) = 1"
    by simp
next
  assume a: "tget claimKey (b_hash bountyDoc) (claims db) = None
        \<and> claimBountyWithAddress L E bountyDoc address db = (Inr (), db2)
        \<and> tget claimKey (b_hash bountyDoc) (claims db2) \<noteq> None"
  then show "claimBountyWithAddress L E bountyDoc address db2 = (Inr (), db2)"
    by (auto simp: claimBountyWithAddress_def)
  from a obtain r rq where db2: "db2 = processClaimResponse L r (logRequest rq db)"
    by (auto simp: claimBountyWithAddress_def Let_def split: option.splits sum.splits prod.splits if_splits)
  have "claims (logRequest rq db) = claims db"
    by (simp add: logRequest_def)
  with a db2 have "filter (\<lambda>c. claimKey c = b_hash bountyDoc) (claims db2) = [r]"
    using persisted_once [of "b_hash bountyDoc" "logRequest rq db" L r] by simp
  then show "length (filter (\<lambda>c. claimKey c = b_hash bountyDoc) (claims db2)) = 1"
    by simp
qed

theorem claim_again_is_noop_witness:
  "claimHookin demoLib demoEnv demoHookin demoClaimedDb = (Inr (), demoClaimedDb)
   \<and> length (filter (\<lambda>c. claimKey c = h_hash demoHookin) (claims demoClaimedDb)) = 1
   \<and> claimBountyWithAddress demoLib demoEnv demoBounty demoDirectAddress demoClaimedDb2 = (Inr (), demoClaimedDb2)
   \<and> claimBounty demoLib demoEnv demoBounty demoClaimedDb2 = (Inr (), demoClaimedDb2)
   \<and> length (filter (\<lambda>c. claimKey c = b_hash demoBounty) (claims demoClaimedDb2)) = 1"
proof -
  note T1 = claim_again_is_noop [where hookinDoc = demoHookin and bountyDoc = demoBounty
      and address = demoDirectAddress and L = demoLib and E = demoEnv and db = demoFundedDb
      and ?db1.0 = demoClaimedDb and ?db2.0 = demoClaimedDb2]
  note T2 = claim_again_is_noop [where hookinDoc = demoHookin and bountyDoc = demoBounty
      and address = demoDirectAddress and L = demoLib and E = demoEnv and db = demoClaimedDb2
      and ?db1.0 = demoClaimedDb and ?db2.0 = demoClaimedDb2]
  show ?thesis
    using T1 T2 demo_unclaimed demo_claimHookin demo_claimBounty demo_claimed by simp
qed

subsection \<open>The amount a claim asks for\<close>




lemma magnitudesValue_nonneg: "0 \<le> magnitudesValue ms"
  by (induction ms) (simp_all add: magnitudesValue_def)







subsection \<open>The gap-limit scan\<close>















subsection \<open>Conflict reconciliation\<close>









subsection \<open>The coin selector\<close>


lemma coinValues_nonneg: "0 \<le> sum_list (map coinValue cs)"
  by (induction cs) (simp_all add: coinValue_def)








subsection \<open>The hash of a new transfer\<close>

lemma tget_tadd: "tadd key r rows = Inr tbl \<Longrightarrow> tget key (key r) tbl = Some r"
proof -
  assume a: "tadd key r rows = Inr tbl"
  then have n: "find (\<lambda>x. key x = key r) rows = None" and t: "tbl = rows @ [r]"
    by (auto simp: tadd_def tget_def split: if_splits)
  have "\<And>ys. find (\<lambda>x. key x = key r) rows = None \<Longrightarrow> find (\<lambda>x. key x = key r) (rows @ ys) = find (\<lambda>x. key x = key r) ys"
    by (induction rows) (auto split: if_splits)
  with n t show ?thesis
    by (simp add: tget_def)
qed

lemma map_Transfer_sort: "map h (Transfer_sort h xs) = sort (map h xs)"
proof -
  have "mset (map h (sort_key h xs)) = mset (map h xs)" by simp
  moreover have "sorted (map h (sort_key h xs))" by (rule sorted_sort_key)
  ultimately show ?thesis
    unfolding Transfer_sort_def by (metis properties_for_sort)
qed

lemma Transfer_sort_perm:
  "mset xs' = mset xs \<Longrightarrow> map h (Transfer_sort h (map f xs')) = map h (Transfer_sort h (map f xs))"
proof -
  assume "mset xs' = mset xs"
  then have "mset (map h (map f xs')) = mset (map h (map f xs))"
    by (metis mset_map)
  then have "sort (map h (map f xs')) = sort (map h (map f xs))"
    by (metis properties_for_sort sorted_sort mset_sort)
  then show ?thesis
    by (simp only: map_Transfer_sort)
qed

lemma buildDirect_built:
  assumes "buildDirect L E to amount db = (Inr (Some (bountyDoc, transferDoc, transferHash)), db')"
  shows "\<exists>found excess unsorted auth.
           coinselection_findAtLeast E (listUnspent db) (amount + basicTransferFee L) = Some (found, excess)
         \<and> transferDoc = transferDocOf L E transferHash
               \<lparr>ft_inputs = Transfer_sort (coinHash L) (map coinFromPOD found),
                ft_bounties = Transfer_sort (bountyHash L) unsorted,
                ft_hookout = None, ft_authorization = auth\<rparr>
         \<and> transferHash = hashOf L (map (coinHash L) (Transfer_sort (coinHash L) (map coinFromPOD found)))
                             (map (bountyHash L) (Transfer_sort (bountyHash L) unsorted)) None
         \<and> tget t_hash (t_hash transferDoc) (transfers db') = Some transferDoc"
  using assms
  apply (simp add: buildDirect_def Let_def FullTransfer_hash_def split: option.splits prod.splits sum.splits if_splits)
  apply (auto dest!: tget_tadd simp: transferDocOf_def)
  done

lemma withChange_short: "withChange L E [] excess db = (Inr bl, db') \<Longrightarrow> length bl \<le> 1"
  by (auto simp: withChange_def split: if_splits prod.splits sum.splits)

lemma buildToBitcoinAddress_built:
  assumes "buildToBitcoinAddress L E address amount feeRate db = (Inr (Some (transferDoc, transferHash)), db')"
  shows "\<exists>found excess.
           coinselection_findAtLeast E (listUnspent db)
              (amount + \<lceil>feeRate * of_int (templateTransactionWeight L)\<rceil>) = Some (found, excess)
         \<and> t_hash transferDoc = transferHash
         \<and> t_coinHashes transferDoc = map (coinHash L) (Transfer_sort (coinHash L) (map coinFromPOD found))
         \<and> length (t_bountyHashes transferDoc) \<le> 1
         \<and> transferHash = hashOf L (t_coinHashes transferDoc) (t_bountyHashes transferDoc) (t_hookoutHash transferDoc)
         \<and> tget t_hash (t_hash transferDoc) (transfers db') = Some transferDoc"
  using assms
  apply (simp add: buildToBitcoinAddress_def Let_def split: option.splits prod.splits sum.splits if_splits)
  apply (auto dest!: tget_tadd [where key = t_hash] withChange_short simp: transferDocOf_def)
  done

lemma finalizeTransfer_acknowledged:
  "finalizeTransfer L E t db = (Inr (), db') \<Longrightarrow>
     \<exists>a. transfers db' = tput t_hash (t\<lparr>t_status := ACKNOWLEDGED a\<rparr>) (transfers db)"
  by (auto simp: finalizeTransfer_def logRequest_def Let_def
        split: if_splits sum.splits prod.splits)

lemma sendDirect_sent:
  assumes "sendDirect L E to amount db = (Inr (Sent h), db3)"
  shows "\<exists>bountyDoc transferDoc db' a.
           buildDirect L E to amount db = (Inr (Some (bountyDoc, transferDoc, h)), db')
         \<and> transfers db3 = tput t_hash (transferDoc\<lparr>t_status := ACKNOWLEDGED a\<rparr>) (transfers db')"
  using assms
  by (auto simp: sendDirect_def transaction_def
        split: if_splits sum.splits prod.splits option.splits
        dest!: finalizeTransfer_acknowledged)

lemma sendToBitcoinAddress_sent:
  assumes "sendToBitcoinAddress L E address amount feeRate db = (Inr (Sent h), db3)"
  shows "\<exists>transferDoc db' a.
           buildToBitcoinAddress L E address amount feeRate db = (Inr (Some (transferDoc, h)), db')
         \<and> transfers db3 = tput t_hash (transferDoc\<lparr>t_status := ACKNOWLEDGED a\<rparr>) (transfers db')"
  using assms
  by (auto simp: sendToBitcoinAddress_def transaction_def
        split: if_splits sum.splits prod.splits option.splits
        dest!: finalizeTransfer_acknowledged)

lemma sorted_short: "length (xs :: bytes list) \<le> 1 \<Longrightarrow> sorted xs"
  by (cases xs) (auto simp: le_Suc_eq)

lemma demo_sent: "fst demoSent = Inr (Sent (sentHash demoSent))"
  by code_simp

lemma demo_sent_onchain: "fst demoSentOnChain = Inr (Sent (sentHash demoSentOnChain))"
  by code_simp

lemma demo_built: "fst demoBuilt = Inr (Some (demoBuiltBounty, demoBuiltDoc, t_hash demoBuiltDoc))"
  by code_simp

lemma demo_built_onchain: "fst demoBuiltOnChain = Inr (Some (demoBuiltDoc2, t_hash demoBuiltDoc2))"
  by code_simp

lemma demo_found:
  "coinselection_findAtLeast ackEnv (listUnspent demoClaimedDb) (2 + basicTransferFee demoLib) = Some (demoFound, 2)"
  by code_simp

text \<open>
  C6. The row that \<^verbatim>\<open>sendDirect\<close> or \<^verbatim>\<open>sendToBitcoinAddress\<close> writes for a new transfer
  carries the hash that is recomputed from its coin hashes, its bounty hashes and its hookout
  hash; it is the hash handed back to the caller, and after a send that returns, the row
  under that hash still recomputes to it. The coin hashes and the bounty hashes of the row
  are sorted, and the coin hashes are the same for every order in which the selector
  could have listed the coins it found.
\<close>

theorem transfer_hash_round_trip:
  "(buildDirect L E to amount db = (Inr (Some (bountyDoc, transferDoc, transferHash)), db') \<longrightarrow>
      recomputed L transferDoc = t_hash transferDoc
      \<and> transferHash = t_hash transferDoc
      \<and> tget t_hash (t_hash transferDoc) (transfers db') = Some transferDoc
      \<and> sorted (t_coinHashes transferDoc) \<and> sorted (t_bountyHashes transferDoc)
      \<and> (\<forall>found excess found'.
            coinselection_findAtLeast E (listUnspent db) (amount + basicTransferFee L) = Some (found, excess)
            \<and> mset found' = mset found \<longrightarrow>
            map (coinHash L) (Transfer_sort (coinHash L) (map coinFromPOD found')) = t_coinHashes transferDoc))
   \<and> (buildToBitcoinAddress L E address amount2 feeRate db = (Inr (Some (transferDoc2, transferHash2)), db2) \<longrightarrow>
      recomputed L transferDoc2 = t_hash transferDoc2
      \<and> transferHash2 = t_hash transferDoc2
      \<and> tget t_hash (t_hash transferDoc2) (transfers db2) = Some transferDoc2
      \<and> sorted (t_coinHashes transferDoc2) \<and> sorted (t_bountyHashes transferDoc2)
      \<and> (\<forall>found excess found'.
            coinselection_findAtLeast E (listUnspent db)
               (amount2 + \<lceil>feeRate * of_int (templateTransactionWeight L)\<rceil>) = Some (found, excess)
            \<and> mset found' = mset found \<longrightarrow>
            map (coinHash L) (Transfer_sort (coinHash L) (map coinFromPOD found')) = t_coinHashes transferDoc2))
   \<and> (sendDirect L E to amount db = (Inr (Sent h), db3) \<longrightarrow>
      (\<exists>row. tget t_hash h (transfers db3) = Some row \<and> t_hash row = h \<and> recomputed L row = h))
   \<and> (sendToBitcoinAddress L E address amount2 feeRate db = (Inr (Sent h2), db4) \<longrightarrow>
      (\<exists>row. tget t_hash h2 (transfers db4) = Some row \<and> t_hash row = h2 \<and> recomputed L row = h2))"
proof -
  have direct: "\<And>bountyDoc transferDoc transferHash db'.
      buildDirect L E to amount db = (Inr (Some (bountyDoc, transferDoc, transferHash)), db') \<Longrightarrow>
      recomputed L transferDoc = t_hash transferDoc
      \<and> transferHash = t_hash transferDoc
      \<and> tget t_hash (t_hash transferDoc) (transfers db') = Some transferDoc
      \<and> sorted (t_coinHashes transferDoc) \<and> sorted (t_bountyHashes transferDoc)
      \<and> (\<forall>found excess found'.
            coinselection_findAtLeast E (listUnspent db) (amount + basicTransferFee L) = Some (found, excess)
            \<and> mset found' = mset found \<longrightarrow>
            map (coinHash L) (Transfer_sort (coinHash L) (map coinFromPOD found')) = t_coinHashes transferDoc)"
  proof -
    fix bountyDoc transferDoc transferHash db'
    assume "buildDirect L E to amount db = (Inr (Some (bountyDoc, transferDoc, transferHash)), db')"
    from buildDirect_built [OF this] obtain found excess unsorted auth where
      sel: "coinselection_findAtLeast E (listUnspent db) (amount + basicTransferFee L) = Some (found, excess)"
      and doc: "transferDoc = transferDocOf L E transferHash
               \<lparr>ft_inputs = Transfer_sort (coinHash L) (map coinFromPOD found),
                ft_bounties = Transfer_sort (bountyHash L) unsorted,
                ft_hookout = None, ft_authorization = auth\<rparr>"
      and h: "transferHash = hashOf L (map (coinHash L) (Transfer_sort (coinHash L) (map coinFromPOD found)))
                             (map (bountyHash L) (Transfer_sort (bountyHash L) unsorted)) None"
      and row: "tget t_hash (t_hash transferDoc) (transfers db') = Some transferDoc"
      by blast
    have c: "t_coinHashes transferDoc = map (coinHash L) (Transfer_sort (coinHash L) (map coinFromPOD found))"
      and b: "t_bountyHashes transferDoc = map (bountyHash L) (Transfer_sort (bountyHash L) unsorted)"
      and o: "t_hookoutHash transferDoc = None" and k: "t_hash transferDoc = transferHash"
      using doc by (simp_all add: transferDocOf_def)
    have "recomputed L transferDoc = t_hash transferDoc"
      using c b o k h by (simp add: recomputed_def)
    moreover have "sorted (t_coinHashes transferDoc)" "sorted (t_bountyHashes transferDoc)"
      using c b by (simp_all add: map_Transfer_sort)
    moreover have "\<forall>f e found'.
            coinselection_findAtLeast E (listUnspent db) (amount + basicTransferFee L) = Some (f, e)
            \<and> mset found' = mset f \<longrightarrow>
            map (coinHash L) (Transfer_sort (coinHash L) (map coinFromPOD found')) = t_coinHashes transferDoc"
    proof (intro allI impI)
      fix f e found'
      assume a: "coinselection_findAtLeast E (listUnspent db) (amount + basicTransferFee L) = Some (f, e)
            \<and> mset found' = mset f"
      with sel have "mset found' = mset found" by simp
      from Transfer_sort_perm [OF this, of "coinHash L" coinFromPOD] c
      show "map (coinHash L) (Transfer_sort (coinHash L) (map coinFromPOD found')) = t_coinHashes transferDoc"
        by simp
    qed
    ultimately show "recomputed L transferDoc = t_hash transferDoc
      \<and> transferHash = t_hash transferDoc
      \<and> tget t_hash (t_hash transferDoc) (transfers db') = Some transferDoc
      \<and> sorted (t_coinHashes transferDoc) \<and> sorted (t_bountyHashes transferDoc)
      \<and> (\<forall>found excess found'.
            coinselection_findAtLeast E (listUnspent db) (amount + basicTransferFee L) = Some (found, excess)
            \<and> mset found' = mset found \<longrightarrow>
            map (coinHash L) (Transfer_sort (coinHash L) (map coinFromPOD found')) = t_coinHashes transferDoc)"
      using k row by blast
  qed
  have onchain: "\<And>transferDoc transferHash db'.
      buildToBitcoinAddress L E address amount2 feeRate db = (Inr (Some (transferDoc, transferHash)), db') \<Longrightarrow>
      recomputed L transferDoc = t_hash transferDoc
      \<and> transferHash = t_hash transferDoc
      \<and> tget t_hash (t_hash transferDoc) (transfers db') = Some transferDoc
      \<and> sorted (t_coinHashes transferDoc) \<and> sorted (t_bountyHashes transferDoc)
      \<and> (\<forall>found excess found'.
            coinselection_findAtLeast E (listUnspent db)
               (amount2 + \<lceil>feeRate * of_int (templateTransactionWeight L)\<rceil>) = Some (found, excess)
            \<and> mset found' = mset found \<longrightarrow>
            map (coinHash L) (Transfer_sort (coinHash L) (map coinFromPOD found')) = t_coinHashes transferDoc)"
  proof -
    fix transferDoc transferHash db'
    assume "buildToBitcoinAddress L E address amount2 feeRate db = (Inr (Some (transferDoc, transferHash)), db')"
    from buildToBitcoinAddress_built [OF this] obtain found excess where
      sel: "coinselection_findAtLeast E (listUnspent db)
              (amount2 + \<lceil>feeRate * of_int (templateTransactionWeight L)\<rceil>) = Some (found, excess)"
      and k: "t_hash transferDoc = transferHash"
      and c: "t_coinHashes transferDoc = map (coinHash L) (Transfer_sort (coinHash L) (map coinFromPOD found))"
      and short: "length (t_bountyHashes transferDoc) \<le> 1"
      and h: "transferHash = hashOf L (t_coinHashes transferDoc) (t_bountyHashes transferDoc) (t_hookoutHash transferDoc)"
      and row: "tget t_hash (t_hash transferDoc) (transfers db') = Some transferDoc"
      by blast
    have "recomputed L transferDoc = t_hash transferDoc"
      using k h by (simp add: recomputed_def)
    moreover have "sorted (t_coinHashes transferDoc)"
      using c by (simp add: map_Transfer_sort)
    moreover have "sorted (t_bountyHashes transferDoc)"
      using short by (rule sorted_short)
    moreover have "\<forall>f e found'.
            coinselection_findAtLeast E (listUnspent db)
               (amount2 + \<lceil>feeRate * of_int (templateTransactionWeight L)\<rceil>) = Some (f, e)
            \<and> mset found' = mset f \<longrightarrow>
            map (coinHash L) (Transfer_sort (coinHash L) (map coinFromPOD found')) = t_coinHashes transferDoc"
    proof (intro allI impI)
      fix f e found'
      assume a: "coinselection_findAtLeast E (listUnspent db) (amount2 + \<lceil>feeRate * of_int (templateTransactionWeight L)\<rceil>) = Some (f, e)
            \<and> mset found' = mset f"
      with sel have "mset found' = mset found" by simp
      from Transfer_sort_perm [OF this, of "coinHash L" coinFromPOD] c
      show "map (coinHash L) (Transfer_sort (coinHash L) (map coinFromPOD found')) = t_coinHashes transferDoc"
        by simp
    qed
    ultimately show "recomputed L transferDoc = t_hash transferDoc
      \<and> transferHash = t_hash transferDoc
      \<and> tget t_hash (t_hash transferDoc) (transfers db') = Some transferDoc
      \<and> sorted (t_coinHashes transferDoc) \<and> sorted (t_bountyHashes transferDoc)
      \<and> (\<forall>found excess found'.
            coinselection_findAtLeast E (listUnspent db)
               (amount2 + \<lceil>feeRate * of_int (templateTransactionWeight L)\<rceil>) = Some (found, excess)
            \<and> mset found' = mset found \<longrightarrow>
            map (coinHash L) (Transfer_sort (coinHash L) (map coinFromPOD found')) = t_coinHashes transferDoc)"
      using k row by blast
  qed
  have sent: "\<And>td hh tbl a. recomputed L td = t_hash td \<Longrightarrow> hh = t_hash td \<Longrightarrow>
      \<exists>row. tget t_hash hh (tput t_hash (td\<lparr>t_status := ACKNOWLEDGED a\<rparr>) tbl) = Some row
           \<and> t_hash row = hh \<and> recomputed L row = hh"
  proof -
    fix td :: Transfer and hh tbl a
    assume r: "recomputed L td = t_hash td" and e: "hh = t_hash td"
    have "tget t_hash hh (tput t_hash (td\<lparr>t_status := ACKNOWLEDGED a\<rparr>) tbl) = Some (td\<lparr>t_status := ACKNOWLEDGED a\<rparr>)"
      using tget_tput_same [of t_hash "td\<lparr>t_status := ACKNOWLEDGED a\<rparr>" tbl] e by simp
    moreover have "recomputed L (td\<lparr>t_status := ACKNOWLEDGED a\<rparr>) = hh"
      using r e by (simp add: recomputed_def)
    ultimately show "\<exists>row. tget t_hash hh (tput t_hash (td\<lparr>t_status := ACKNOWLEDGED a\<rparr>) tbl) = Some row
           \<and> t_hash row = hh \<and> recomputed L row = hh"
      using e by simp
  qed
  have s1: "sendDirect L E to amount db = (Inr (Sent h), db3) \<longrightarrow>
      (\<exists>row. tget t_hash h (transfers db3) = Some row \<and> t_hash row = h \<and> recomputed L row = h)"
  proof
    assume "sendDirect L E to amount db = (Inr (Sent h), db3)"
    from sendDirect_sent [OF this] obtain bd td db' a where
      b: "buildDirect L E to amount db = (Inr (Some (bd, td, h)), db')"
      and t: "transfers db3 = tput t_hash (td\<lparr>t_status := ACKNOWLEDGED a\<rparr>) (transfers db')"
      by blast
    from direct [OF b] have "recomputed L td = t_hash td" "h = t_hash td" by simp_all
    from sent [OF this] t
    show "\<exists>row. tget t_hash h (transfers db3) = Some row \<and> t_hash row = h \<and> recomputed L row = h"
      by simp
  qed
  have s2: "sendToBitcoinAddress L E address amount2 feeRate db = (Inr (Sent h2), db4) \<longrightarrow>
      (\<exists>row. tget t_hash h2 (transfers db4) = Some row \<and> t_hash row = h2 \<and> recomputed L row = h2)"
  proof
    assume "sendToBitcoinAddress L E address amount2 feeRate db = (Inr (Sent h2), db4)"
    from sendToBitcoinAddress_sent [OF this] obtain td db' a where
      b: "buildToBitcoinAddress L E address amount2 feeRate db = (Inr (Some (td, h2)), db')"
      and t: "transfers db4 = tput t_hash (td\<lparr>t_status := ACKNOWLEDGED a\<rparr>) (transfers db')"
      by blast
    from onchain [OF b] have "recomputed L td = t_hash td" "h2 = t_hash td" by simp_all
    from sent [OF this] t
    show "\<exists>row. tget t_hash h2 (transfers db4) = Some row \<and> t_hash row = h2 \<and> recomputed L row = h2"
      by simp
  qed
  have d: "buildDirect L E to amount db = (Inr (Some (bountyDoc, transferDoc, transferHash)), db') \<longrightarrow>
      recomputed L transferDoc = t_hash transferDoc
      \<and> transferHash = t_hash transferDoc
      \<and> tget t_hash (t_hash transferDoc) (transfers db') = Some transferDoc
      \<and> sorted (t_coinHashes transferDoc) \<and> sorted (t_bountyHashes transferDoc)
      \<and> (\<forall>found excess found'.
            coinselection_findAtLeast E (listUnspent db) (amount + basicTransferFee L) = Some (found, excess)
            \<and> mset found' = mset found \<longrightarrow>
            map (coinHash L) (Transfer_sort (coinHash L) (map coinFromPOD found')) = t_coinHashes transferDoc)"
    by (rule impI) (rule direct)
  have oc: "buildToBitcoinAddress L E address amount2 feeRate db = (Inr (Some (transferDoc2, transferHash2)), db2) \<longrightarrow>
      recomputed L transferDoc2 = t_hash transferDoc2
      \<and> transferHash2 = t_hash transferDoc2
      \<and> tget t_hash (t_hash transferDoc2) (transfers db2) = Some transferDoc2
      \<and> sorted (t_coinHashes transferDoc2) \<and> sorted (t_bountyHashes transferDoc2)
      \<and> (\<forall>found excess found'.
            coinselection_findAtLeast E (listUnspent db)
               (amount2 + \<lceil>feeRate * of_int (templateTransactionWeight L)\<rceil>) = Some (found, excess)
            \<and> mset found' = mset found \<longrightarrow>
            map (coinHash L) (Transfer_sort (coinHash L) (map coinFromPOD found')) = t_coinHashes transferDoc2)"
    by (rule impI) (rule onchain)
  show ?thesis
    by (rule conjI [OF d conjI [OF oc conjI [OF s1 s2]]])
qed

theorem transfer_hash_round_trip_witness:
  "recomputed demoLib demoBuiltDoc = t_hash demoBuiltDoc
   \<and> sorted (t_coinHashes demoBuiltDoc) \<and> sorted (t_bountyHashes demoBuiltDoc)
   \<and> map (coinHash demoLib) (Transfer_sort (coinHash demoLib) (map coinFromPOD (rev demoFound)))
        = t_coinHashes demoBuiltDoc
   \<and> recomputed demoLib demoBuiltDoc2 = t_hash demoBuiltDoc2
   \<and> map_option (recomputed demoLib) (tget t_hash (sentHash demoSent) (transfers (snd demoSent)))
        = Some (sentHash demoSent)
   \<and> map_option (recomputed demoLib) (tget t_hash (sentHash demoSentOnChain) (transfers (snd demoSentOnChain)))
        = Some (sentHash demoSentOnChain)"
proof -
  have b1: "buildDirect demoLib ackEnv [1, 9] 2 demoClaimedDb
              = (Inr (Some (demoBuiltBounty, demoBuiltDoc, t_hash demoBuiltDoc)), snd demoBuilt)"
    using demo_built by (simp add: demoBuilt_def prod_eq_iff)
  have b2: "buildToBitcoinAddress demoLib ackEnv ''bc1q'' 2 (1 / 2) demoClaimedDb
              = (Inr (Some (demoBuiltDoc2, t_hash demoBuiltDoc2)), snd demoBuiltOnChain)"
    using demo_built_onchain by (simp add: demoBuiltOnChain_def prod_eq_iff)
  have s1: "sendDirect demoLib ackEnv [1, 9] 2 demoClaimedDb = (Inr (Sent (sentHash demoSent)), snd demoSent)"
    using demo_sent by (simp add: demoSent_def prod_eq_iff)
  have s2: "sendToBitcoinAddress demoLib ackEnv ''bc1q'' 2 (1 / 2) demoClaimedDb
              = (Inr (Sent (sentHash demoSentOnChain)), snd demoSentOnChain)"
    using demo_sent_onchain by (simp add: demoSentOnChain_def prod_eq_iff)
  have p: "mset (rev demoFound) = mset demoFound"
    by simp
  note T = transfer_hash_round_trip [where L = demoLib and E = ackEnv and to = "[1, 9]" and amount = 2
      and db = demoClaimedDb and bountyDoc = demoBuiltBounty and transferDoc = demoBuiltDoc
      and transferHash = "t_hash demoBuiltDoc" and db' = "snd demoBuilt"
      and address = "''bc1q''" and ?amount2.0 = 2 and feeRate = "1 / 2"
      and ?transferDoc2.0 = demoBuiltDoc2 and ?transferHash2.0 = "t_hash demoBuiltDoc2"
      and ?db2.0 = "snd demoBuiltOnChain"
      and h = "sentHash demoSent" and ?db3.0 = "snd demoSent"
      and ?h2.0 = "sentHash demoSentOnChain" and ?db4.0 = "snd demoSentOnChain"]
  from T b1 demo_found p
  have a: "recomputed demoLib demoBuiltDoc = t_hash demoBuiltDoc
     \<and> sorted (t_coinHashes demoBuiltDoc) \<and> sorted (t_bountyHashes demoBuiltDoc)
     \<and> map (coinHash demoLib) (Transfer_sort (coinHash demoLib) (map coinFromPOD (rev demoFound)))
        = t_coinHashes demoBuiltDoc"
    by blast
  from T b2 have b: "recomputed demoLib demoBuiltDoc2 = t_hash demoBuiltDoc2"
    by blast
  from T s1 have c: "map_option (recomputed demoLib) (tget t_hash (sentHash demoSent) (transfers (snd demoSent)))
        = Some (sentHash demoSent)"
    by auto
  from T s2 have d: "map_option (recomputed demoLib) (tget t_hash (sentHash demoSentOnChain) (transfers (snd demoSentOnChain)))
        = Some (sentHash demoSentOnChain)"
    by auto
  show ?thesis
    using a b c d by simp
qed

end
